theory Spec2Isabelle
  imports Main "HOL-Library.Sublist"
begin

section \<open>Schema model\<close>

text \<open>
  The three structs of the package. Go strings are byte sequences, so a string is a
  \<open>char list\<close>. The selectors carry the struct's name as a prefix because the three
  structs share the field name \<open>Name\<close> (and two of them \<open>Comment\<close>).
  The index list is spelled \<open>Indices\<close> in the struct declaration and \<open>Indexs\<close> in
  \<open>Update\<close> and \<open>ReadFromDB\<close>; it is the same field.
\<close>

record Field =
  Field_Name :: string
  Field_Type :: string
  Field_Nullable :: bool
  Field_AutoIncrement :: bool
  Field_DefaultValue :: string
  Field_Comment :: string

record Index =
  Index_Name :: string
  Index_Columns :: "string list"
  Index_Primary :: bool
  Index_Unique :: bool

record Schema =
  Schema_Name :: string
  Schema_Fields :: "Field list"
  Schema_Indices :: "Index list"
  Schema_Engine :: string
  Schema_Collate :: string
  Schema_Comment :: string

subsection \<open>Lookups\<close>

text \<open>
  \<open>func (sc *Schema) Field(name string) *Field\<close>: the first field of that name, or nil.
  The loop over \<open>sc.Fields\<close> is the recursion over the list.
\<close>

fun Field_loop :: "Field list \<Rightarrow> string \<Rightarrow> Field option" where
  "Field_loop [] name = None"
| "Field_loop (field # rest) name =
     (if Field_Name field = name then Some field else Field_loop rest name)"

definition Schema_Field :: "Schema \<Rightarrow> string \<Rightarrow> Field option" where
  "Schema_Field sc name = Field_loop (Schema_Fields sc) name"

text \<open>
  \<open>func (sc *Schema) Index(name string) *Index\<close>: the name \<open>PRIMARY\<close> is replaced by
  the empty name first; then the first index whose name is the looked-up one, or which is
  primary when the looked-up name is empty.
\<close>

fun Index_loop :: "Index list \<Rightarrow> string \<Rightarrow> Index option" where
  "Index_loop [] name = None"
| "Index_loop (index # rest) name =
     (if Index_Name index = name \<or> (name = '''' \<and> Index_Primary index)
      then Some index else Index_loop rest name)"

definition Schema_Index :: "Schema \<Rightarrow> string \<Rightarrow> Index option" where
  "Schema_Index sc name =
     (let name = (if name = ''PRIMARY'' then '''' else name)
      in Index_loop (Schema_Indices sc) name)"

subsection \<open>Equality predicates\<close>

text \<open>\<open>func (fd *Field) Equal(other *Field) bool\<close>, check by check.\<close>

definition Field_Equal :: "Field \<Rightarrow> Field \<Rightarrow> bool" where
  "Field_Equal fd other =
     (if Field_Name fd \<noteq> Field_Name other then False
      else if Field_Type fd \<noteq> Field_Type other then False
      else if Field_Nullable fd \<noteq> Field_Nullable other then False
      else if Field_AutoIncrement fd \<noteq> Field_AutoIncrement other then False
      else
        let defVal1 = Field_DefaultValue fd;
            defVal2 = Field_DefaultValue other;
            defVal1 = (if defVal1 = ''NULL'' then '''' else defVal1);
            defVal2 = (if defVal2 = ''NULL'' then '''' else defVal2)
        in if defVal1 \<noteq> defVal2 then False
           else if Field_Comment fd \<noteq> Field_Comment other then False
           else True)"

text \<open>
  The column loop of \<open>Index.Equal\<close> reads \<open>other.Columns[i]\<close> for every position of
  \<open>idx.Columns\<close>. It runs only behind the length check, so the read is always in range;
  the equation for a shorter second list is the place where Go would panic and is never
  reached from \<open>Index_Equal\<close>.
\<close>

fun Columns_loop :: "string list \<Rightarrow> string list \<Rightarrow> bool" where
  "Columns_loop [] others = True"
| "Columns_loop (column # rest) (other # others) =
     (if column \<noteq> other then False else Columns_loop rest others)"
| "Columns_loop (column # rest) [] = False"

definition Index_Equal :: "Index \<Rightarrow> Index \<Rightarrow> bool" where
  "Index_Equal idx other =
     (if Index_Primary idx \<noteq> Index_Primary other then False
      else if \<not> Index_Primary idx \<and> Index_Name idx \<noteq> Index_Name other then False
      else if Index_Unique idx \<noteq> Index_Unique other then False
      else if length (Index_Columns idx) \<noteq> length (Index_Columns other) then False
      else Columns_loop (Index_Columns idx) (Index_Columns other))"

section \<open>The database boundary\<close>

text \<open>
  \<open>database/sql\<close> is outside the package. The model keeps what the package observes of
  it: the outcome of each of the four probes of \<open>ReadFromDB\<close>, and the outcome of
  \<open>ExecContext\<close> for a statement, which may depend on the statements the run has sent
  before. An \<open>error\<close> is a driver error, \<open>sql.ErrNoRows\<close>, an error wrapped by
  \<open>errors.Wrap\<close>, or a run-time panic of Go (a slice or index out of range).
\<close>

datatype error =
    ErrNoRows
  | DriverError string
  | Wrap error string
  | RuntimePanic string

type_synonym column_row = "string \<times> string \<times> string \<times> string option \<times> string \<times> string"
type_synonym statistics_row = "string \<times> int \<times> string \<times> int"

record DB =
  DB_database :: "error + string"
  DB_tables :: "string \<Rightarrow> string \<Rightarrow> error + (string \<times> string \<times> string)"
  DB_columns :: "string \<Rightarrow> string \<Rightarrow> error + (error + column_row) list"
  DB_statistics :: "string \<Rightarrow> string \<Rightarrow> error + (error + statistics_row) list"
  DB_exec :: "string list \<Rightarrow> string \<Rightarrow> error option"

text \<open>
  A run is the list of statements sent to the database so far, with the error the run
  ended with (\<open>None\<close> is Go's nil). \<open>ExecContext\<close> records the statement, whether or
  not the database accepts it.
\<close>

type_synonym run = "string list \<times> error option"

definition ExecContext :: "DB \<Rightarrow> string list \<Rightarrow> string \<Rightarrow> run" where
  "ExecContext db log sql = (log @ [sql], DB_exec db log sql)"

section \<open>ReadFromDB\<close>

text \<open>The loop over the rows of \<open>information_schema.COLUMNS\<close>; a row that fails to scan
  ends the read.\<close>

fun ReadFromDB_columns :: "Schema \<Rightarrow> (error + column_row) list \<Rightarrow> error + Schema" where
  "ReadFromDB_columns sc [] = Inr sc"
| "ReadFromDB_columns sc (row # rows) =
     (case row of
        Inl e \<Rightarrow> Inl (Wrap e ''Scan table columns failed'')
      | Inr (name, type, isNullable, defaultValue, comment, extra) \<Rightarrow>
          let field = \<lparr>Field_Name = name, Field_Type = type, Field_Nullable = False,
                       Field_AutoIncrement = False, Field_DefaultValue = '''',
                       Field_Comment = comment\<rparr>;
              field = (if extra = ''auto_increment''
                       then field\<lparr>Field_AutoIncrement := True\<rparr> else field);
              field = (if isNullable = ''YES''
                       then field\<lparr>Field_Nullable := True\<rparr> else field);
              field = (case defaultValue of
                         Some v \<Rightarrow> field\<lparr>Field_DefaultValue := v\<rparr>
                       | None \<Rightarrow> field)
          in ReadFromDB_columns (sc\<lparr>Schema_Fields := Schema_Fields sc @ [field]\<rparr>) rows)"

text \<open>
  The loop over the rows of \<open>information_schema.STATISTICS\<close>, with \<open>idxMap\<close> from an
  index name to its position in \<open>sc.Indexs\<close>. Writing \<open>sc.Indexs[i]\<close> out of range
  would panic.
\<close>

fun ReadFromDB_indexs ::
  "(string \<rightharpoonup> nat) \<Rightarrow> Schema \<Rightarrow> (error + statistics_row) list \<Rightarrow> error + Schema" where
  "ReadFromDB_indexs idxMap sc [] = Inr sc"
| "ReadFromDB_indexs idxMap sc (row # rows) =
     (case row of
        Inl e \<Rightarrow> Inl (Wrap e ''Scan table indexs failed'')
      | Inr (idxName, seq, idxColumn, nonUnique) \<Rightarrow>
          (case idxMap idxName of
             None \<Rightarrow>
               let idxMap' = idxMap(idxName \<mapsto> length (Schema_Indices sc));
                   index = \<lparr>Index_Name = idxName, Index_Columns = [idxColumn],
                            Index_Primary = False, Index_Unique = False\<rparr>;
                   index = (if Index_Name index = ''PRIMARY''
                            then index\<lparr>Index_Primary := True\<rparr>
                            else if nonUnique = 0 then index\<lparr>Index_Unique := True\<rparr>
                            else index)
               in ReadFromDB_indexs idxMap'
                    (sc\<lparr>Schema_Indices := Schema_Indices sc @ [index]\<rparr>) rows
           | Some i \<Rightarrow>
               if i < length (Schema_Indices sc)
               then ReadFromDB_indexs idxMap
                      (sc\<lparr>Schema_Indices := (Schema_Indices sc)
                           [i := (Schema_Indices sc ! i)
                              \<lparr>Index_Columns :=
                                 Index_Columns (Schema_Indices sc ! i) @ [idxColumn]\<rparr>]\<rparr>)
                      rows
               else Inl (RuntimePanic ''index out of range'')))"

text \<open>
  \<open>func ReadFromDB(db, ctx, name) (*Schema, error)\<close>. The result \<open>Inr None\<close> is the pair
  \<open>(nil, nil)\<close>: the table is absent.
\<close>

definition ReadFromDB :: "DB \<Rightarrow> string \<Rightarrow> error + Schema option" where
  "ReadFromDB db name =
     (case DB_database db of
        Inl e \<Rightarrow> Inl (Wrap e ''Get database name failed'')
      | Inr dbName \<Rightarrow>
          (let sc = \<lparr>Schema_Name = name, Schema_Fields = [], Schema_Indices = [],
                     Schema_Engine = '''', Schema_Collate = '''', Schema_Comment = ''''\<rparr>
           in (case DB_tables db dbName name of
                 Inl e \<Rightarrow>
                   (if e = ErrNoRows then Inr None
                    else Inl (Wrap e ''Get table info failed''))
               | Inr (engine, collate, comment) \<Rightarrow>
                   (let sc = sc\<lparr>Schema_Engine := engine, Schema_Collate := collate,
                               Schema_Comment := comment\<rparr>
                    in (case DB_columns db dbName name of
                          Inl e \<Rightarrow> Inl (Wrap e ''Get table columns failed'')
                        | Inr rows \<Rightarrow>
                            (case ReadFromDB_columns sc rows of
                               Inl e \<Rightarrow> Inl e
                             | Inr sc \<Rightarrow>
                                 (case DB_statistics db dbName name of
                                    Inl e \<Rightarrow> Inl (Wrap e ''Get table indexs failed'')
                                  | Inr rows \<Rightarrow>
                                      (case ReadFromDB_indexs Map.empty sc rows of
                                         Inl e \<Rightarrow> Inl e
                                       | Inr sc \<Rightarrow> Inr (Some sc)))))))))"

section \<open>Rendering\<close>

text \<open>
  The single quote cannot end a string literal of the logic, so it has a name.
  \<open>escape\<close> is not among the sources of the package; \<open>Create\<close> and \<open>Update\<close> take it
  as a parameter.
\<close>

definition apostrophe :: string where
  "apostrophe = [CHR 0x27]"

text \<open>
  The clause after the column type: the same text in \<open>Create\<close> (lines 16 to 29) and in
  \<open>Update\<close> (lines 60 to 73).
\<close>

definition Field_attrs :: "(string \<Rightarrow> string) \<Rightarrow> Field \<Rightarrow> string \<Rightarrow> string" where
  "Field_attrs escape field sql =
     (let sql = (if Field_Nullable field then sql @ '' NULL'' else sql @ '' NOT NULL'');
          sql = (if Field_AutoIncrement field then sql @ '' AUTO_INCREMENT'' else sql);
          sql = (if Field_DefaultValue field \<noteq> ''''
                 then sql @ '' DEFAULT '' @ Field_DefaultValue field else sql);
          sql = (if Field_Comment field \<noteq> ''''
                 then sql @ '' COMMENT '' @ apostrophe @ escape (Field_Comment field) @ apostrophe
                 else sql)
      in sql)"

text \<open>The loop \<open>for _, column := range index.Columns { sql += "`" + column + "`," }\<close>.\<close>

fun Columns_append :: "string \<Rightarrow> string list \<Rightarrow> string" where
  "Columns_append sql [] = sql"
| "Columns_append sql (column # rest) = Columns_append (sql @ ''`'' @ column @ ''`,'') rest"

text \<open>\<open>sql[:len(sql)-1]\<close>: Go panics when the string is empty.\<close>

definition slice_last :: "string \<Rightarrow> error + string" where
  "slice_last sql =
     (if sql = [] then Inl (RuntimePanic ''slice bounds out of range'') else Inr (butlast sql))"

section \<open>Create\<close>

fun Create_fields :: "(string \<Rightarrow> string) \<Rightarrow> string \<Rightarrow> Field list \<Rightarrow> string" where
  "Create_fields escape sql [] = sql"
| "Create_fields escape sql (field # rest) =
     (let sql = sql @ ''`'' @ Field_Name field @ ''` '' @ Field_Type field;
          sql = Field_attrs escape field sql;
          sql = sql @ '',''
      in Create_fields escape sql rest)"

fun Create_indices :: "string \<Rightarrow> Index list \<Rightarrow> error + string" where
  "Create_indices sql [] = Inr sql"
| "Create_indices sql (index # rest) =
     (let sql = (if Index_Primary index then sql @ ''PRIMARY KEY (''
                 else if Index_Unique index
                   then sql @ ''UNIQUE KEY `'' @ Index_Name index @ ''` (''
                 else sql @ ''KEY `'' @ Index_Name index @ ''` ('');
          sql = Columns_append sql (Index_Columns index)
      in case slice_last sql of
           Inl e \<Rightarrow> Inl e
         | Inr sql \<Rightarrow> Create_indices (sql @ ''),'') rest)"

text \<open>The statement that \<open>Create\<close> builds (lines 13 to 56).\<close>

definition Create_sql :: "(string \<Rightarrow> string) \<Rightarrow> Schema \<Rightarrow> error + string" where
  "Create_sql escape sc =
     (let sql = ''CREATE TABLE IF NOT EXISTS `'' @ Schema_Name sc @ ''` ('';
          sql = Create_fields escape sql (Schema_Fields sc)
      in case Create_indices sql (Schema_Indices sc) of
           Inl e \<Rightarrow> Inl e
         | Inr sql \<Rightarrow>
             (case slice_last sql of
                Inl e \<Rightarrow> Inl e
              | Inr sql \<Rightarrow>
                  let sql = sql @ '')'';
                      sql = (if Schema_Engine sc \<noteq> ''''
                             then sql @ '' ENGINE='' @ Schema_Engine sc else sql);
                      sql = (if Schema_Collate sc \<noteq> ''''
                             then sql @ '' COLLATE='' @ Schema_Collate sc else sql);
                      sql = (if Schema_Comment sc \<noteq> ''''
                             then sql @ '' COMMENT='' @ apostrophe
                                      @ escape (Schema_Comment sc) @ apostrophe
                             else sql)
                  in Inr sql))"

text \<open>\<open>func (sc *Schema) Create(db, ctx) error\<close>.\<close>

definition Schema_Create :: "DB \<Rightarrow> (string \<Rightarrow> string) \<Rightarrow> Schema \<Rightarrow> string list \<Rightarrow> run" where
  "Schema_Create db escape sc log =
     (case Create_sql escape sc of
        Inl e \<Rightarrow> (log, Some e)
      | Inr sql \<Rightarrow>
          let (log, err) = ExecContext db log sql
          in if err \<noteq> None then (log, err) else (log, None))"

section \<open>Update\<close>

text \<open>Lines 18 to 31: the changed table attributes.\<close>

definition Update_attrs :: "(string \<Rightarrow> string) \<Rightarrow> Schema \<Rightarrow> Schema \<Rightarrow> string" where
  "Update_attrs escape sc cur =
     (let sql = '''';
          sql = (if Schema_Engine sc \<noteq> Schema_Engine cur
                 then sql @ '' ENGINE = '' @ Schema_Engine sc else sql);
          sql = (if Schema_Collate sc \<noteq> Schema_Collate cur
                 then sql @ '' COLLATE = '' @ Schema_Collate sc else sql);
          sql = (if Schema_Comment sc \<noteq> Schema_Comment cur
                 then sql @ '' COMMENT = '' @ apostrophe @ escape (Schema_Comment sc) @ apostrophe
                 else sql)
      in sql)"

text \<open>Lines 41 to 49: one statement for every field of \<open>cur\<close> that \<open>sc\<close> does not have.\<close>

fun Update_drop_fields :: "DB \<Rightarrow> Schema \<Rightarrow> string list \<Rightarrow> Field list \<Rightarrow> run" where
  "Update_drop_fields db sc log [] = (log, None)"
| "Update_drop_fields db sc log (field # rest) =
     (if Schema_Field sc (Field_Name field) = None then
        (let sql = ''ALTER TABLE `'' @ Schema_Name sc @ ''` DROP `'' @ Field_Name field @ ''`'';
             (log', e) = ExecContext db log sql
         in if e \<noteq> None then (log', e) else Update_drop_fields db sc log' rest)
      else Update_drop_fields db sc log rest)"

text \<open>Lines 52 to 58: the head of the statement for one field of \<open>sc\<close>, empty when the
  field is unchanged.\<close>

definition Field_change_sql :: "Schema \<Rightarrow> Schema \<Rightarrow> Field \<Rightarrow> string" where
  "Field_change_sql sc cur field =
     (case Schema_Field cur (Field_Name field) of
        None \<Rightarrow>
          ''ALTER TABLE `'' @ Schema_Name sc @ ''` ADD `'' @ Field_Name field @ ''` ''
            @ Field_Type field
      | Some fd \<Rightarrow>
          if \<not> Field_Equal fd field then
            ''ALTER TABLE `'' @ Schema_Name sc @ ''` MODIFY `'' @ Field_Name field @ ''` ''
              @ Field_Type field
          else '''')"

text \<open>Lines 51 to 79.\<close>

fun Update_fields ::
  "DB \<Rightarrow> (string \<Rightarrow> string) \<Rightarrow> Schema \<Rightarrow> Schema \<Rightarrow> string list \<Rightarrow> Field list \<Rightarrow> run" where
  "Update_fields db escape sc cur log [] = (log, None)"
| "Update_fields db escape sc cur log (field # rest) =
     (let sql = Field_change_sql sc cur field
      in if sql \<noteq> '''' then
           (let sql = Field_attrs escape field sql;
                (log', e) = ExecContext db log sql
            in if e \<noteq> None then (log', e)
               else Update_fields db escape sc cur log' rest)
         else Update_fields db escape sc cur log rest)"

text \<open>Lines 81 to 89: one statement for every index of \<open>cur\<close> that \<open>sc\<close> does not have.\<close>

fun Update_drop_indexs :: "DB \<Rightarrow> Schema \<Rightarrow> string list \<Rightarrow> Index list \<Rightarrow> run" where
  "Update_drop_indexs db sc log [] = (log, None)"
| "Update_drop_indexs db sc log (index # rest) =
     (if Schema_Index sc (Index_Name index) = None then
        (let sql = ''ALTER TABLE `'' @ Schema_Name sc @ ''` DROP INDEX `''
                     @ Index_Name index @ ''`'';
             (log', e) = ExecContext db log sql
         in if e \<noteq> None then (log', e) else Update_drop_indexs db sc log' rest)
      else Update_drop_indexs db sc log rest)"

text \<open>Lines 92 to 110: the head of the statement for one index of \<open>sc\<close>, empty when the
  index is unchanged.\<close>

definition Index_change_sql :: "Schema \<Rightarrow> Schema \<Rightarrow> Index \<Rightarrow> string" where
  "Index_change_sql sc cur index =
     (case Schema_Index cur (Index_Name index) of
        None \<Rightarrow>
          if Index_Primary index then
            ''ALTER TABLE `'' @ Schema_Name sc @ ''` ADD PRIMARY KEY (''
          else if Index_Unique index then
            ''ALTER TABLE `'' @ Schema_Name sc @ ''` ADD UNIQUE KEY `'' @ Index_Name index
              @ ''` (''
          else
            ''ALTER TABLE `'' @ Schema_Name sc @ ''` ADD KEY `'' @ Index_Name index @ ''` (''
      | Some idx \<Rightarrow>
          if \<not> Index_Equal idx index then
            if Index_Primary index then
              ''ALTER TABLE `'' @ Schema_Name sc @ ''` DROP PRIMARY KEY, ADD PRIMARY KEY (''
            else if Index_Unique index then
              ''ALTER TABLE `'' @ Schema_Name sc @ ''` DROP INDEX `'' @ Index_Name index
                @ ''`, ADD UNIQUE KEY `'' @ Index_Name index @ ''` (''
            else
              ''ALTER TABLE `'' @ Schema_Name sc @ ''` DROP INDEX `'' @ Index_Name index
                @ ''`, ADD KEY `'' @ Index_Name index @ ''` (''
          else '''')"

text \<open>Lines 91 to 121.\<close>

fun Update_indexs :: "DB \<Rightarrow> Schema \<Rightarrow> Schema \<Rightarrow> string list \<Rightarrow> Index list \<Rightarrow> run" where
  "Update_indexs db sc cur log [] = (log, None)"
| "Update_indexs db sc cur log (index # rest) =
     (let sql = Index_change_sql sc cur index
      in if sql \<noteq> '''' then
           (let sql = Columns_append sql (Index_Columns index)
            in case slice_last sql of
                 Inl e \<Rightarrow> (log, Some e)
               | Inr sql \<Rightarrow>
                   let sql = sql @ '')'';
                       (log', e) = ExecContext db log sql
                   in if e \<noteq> None then (log', e)
                      else Update_indexs db sc cur log' rest)
         else Update_indexs db sc cur log rest)"

text \<open>
  \<open>func (sc *Schema) Update(db, ctx) error\<close>: the statements sent to the database, in
  order, and the error returned.
\<close>

definition Schema_Update :: "DB \<Rightarrow> (string \<Rightarrow> string) \<Rightarrow> Schema \<Rightarrow> run" where
  "Schema_Update db escape sc =
     (case ReadFromDB db (Schema_Name sc) of
        Inl e \<Rightarrow> ([], Some e)
      | Inr None \<Rightarrow> Schema_Create db escape sc []
      | Inr (Some cur) \<Rightarrow>
          let sql = Update_attrs escape sc cur;
              (log, e) = (if sql \<noteq> ''''
                          then ExecContext db [] (''ALTER TABLE `'' @ Schema_Name sc @ ''`'' @ sql)
                          else ([], None))
          in if e \<noteq> None then (log, e)
             else
               (case Update_drop_fields db sc log (Schema_Fields cur) of
                  (log, Some e) \<Rightarrow> (log, Some e)
                | (log, None) \<Rightarrow>
                    (case Update_fields db escape sc cur log (Schema_Fields sc) of
                       (log, Some e) \<Rightarrow> (log, Some e)
                     | (log, None) \<Rightarrow>
                         (case Update_drop_indexs db sc log (Schema_Indices cur) of
                            (log, Some e) \<Rightarrow> (log, Some e)
                          | (log, None) \<Rightarrow>
                              Update_indexs db sc cur log (Schema_Indices sc)))))"

section \<open>Sending statements\<close>

text \<open>
  Sending a list of statements in order, stopping at the first one the database refuses:
  what every loop of \<open>Update\<close> does with the statements it builds.
\<close>

fun exec_all :: "DB \<Rightarrow> string list \<Rightarrow> string list \<Rightarrow> run" where
  "exec_all db log [] = (log, None)"
| "exec_all db log (sql # rest) =
     (case DB_exec db log sql of
        Some e \<Rightarrow> (log @ [sql], Some e)
      | None \<Rightarrow> exec_all db (log @ [sql]) rest)"

text \<open>A database that accepts every statement.\<close>

definition accepts_all :: "DB \<Rightarrow> bool" where
  "accepts_all db = (\<forall>log sql. DB_exec db log sql = None)"

section \<open>The invariants of the data model (section 3)\<close>

text \<open>
  Field names are unique; index names are unique; the names \<open>PRIMARY\<close> and the empty
  name belong to a primary index only; a table has at most one primary index.
\<close>

definition Schema_wellformed :: "Schema \<Rightarrow> bool" where
  "Schema_wellformed sc =
     (distinct (map Field_Name (Schema_Fields sc)) \<and>
      distinct (map Index_Name (Schema_Indices sc)) \<and>
      (\<forall>i \<in> set (Schema_Indices sc).
         (Index_Name i = '''' \<or> Index_Name i = ''PRIMARY'') \<longrightarrow> Index_Primary i) \<and>
      (\<forall>i \<in> set (Schema_Indices sc). \<forall>j \<in> set (Schema_Indices sc).
         Index_Primary i \<and> Index_Primary j \<longrightarrow> i = j))"

section \<open>Clauses in closed form\<close>

text \<open>A list of texts joined by commas.\<close>

fun joined :: "string list \<Rightarrow> string" where
  "joined [] = ''''"
| "joined [x] = x"
| "joined (x # y # rest) = x @ '','' @ joined (y # rest)"

definition quoted :: "string \<Rightarrow> string" where
  "quoted name = ''`'' @ name @ ''`''"

text \<open>What follows the type in a column clause.\<close>

definition column_tail :: "(string \<Rightarrow> string) \<Rightarrow> Field \<Rightarrow> string" where
  "column_tail escape field =
     (if Field_Nullable field then '' NULL'' else '' NOT NULL'')
     @ (if Field_AutoIncrement field then '' AUTO_INCREMENT'' else '''')
     @ (if Field_DefaultValue field \<noteq> '''' then '' DEFAULT '' @ Field_DefaultValue field
        else '''')
     @ (if Field_Comment field \<noteq> ''''
        then '' COMMENT '' @ apostrophe @ escape (Field_Comment field) @ apostrophe else '''')"

definition column_clause :: "(string \<Rightarrow> string) \<Rightarrow> Field \<Rightarrow> string" where
  "column_clause escape field =
     quoted (Field_Name field) @ '' '' @ Field_Type field @ column_tail escape field"

definition index_head :: "Index \<Rightarrow> string" where
  "index_head index =
     (if Index_Primary index then ''PRIMARY KEY (''
      else if Index_Unique index then ''UNIQUE KEY '' @ quoted (Index_Name index) @ '' (''
      else ''KEY '' @ quoted (Index_Name index) @ '' ('')"

text \<open>
  An index clause as \<open>Create\<close> leaves it: every column followed by a comma, the last
  character cut, the closing parenthesis added.
\<close>

definition index_clause :: "Index \<Rightarrow> string" where
  "index_clause index =
     butlast (index_head index @ concat (map (\<lambda>c. quoted c @ '','') (Index_Columns index)))
       @ '')''"

definition table_attrs :: "(string \<Rightarrow> string) \<Rightarrow> Schema \<Rightarrow> string" where
  "table_attrs escape sc =
     (if Schema_Engine sc \<noteq> '''' then '' ENGINE='' @ Schema_Engine sc else '''')
     @ (if Schema_Collate sc \<noteq> '''' then '' COLLATE='' @ Schema_Collate sc else '''')
     @ (if Schema_Comment sc \<noteq> ''''
        then '' COMMENT='' @ apostrophe @ escape (Schema_Comment sc) @ apostrophe else '''')"

text \<open>
  Modelled from the spec: \<open>escape\<close> is called by \<open>Create\<close> and \<open>Update\<close> and is not
  among the sources. The specification says only that free text is escaped for inclusion
  in a literal; this sample puts a backslash before a single quote, a double quote and a
  backslash. It is used where a concrete function is needed and nowhere else.
\<close>

definition escape_sample :: "string \<Rightarrow> string" where
  "escape_sample s =
     concat (map (\<lambda>c. if c = CHR 0x27 \<or> c = CHR 0x22 \<or> c = CHR 0x5C then [CHR 0x5C, c] else [c]) s)"

section \<open>The change list of section 4.3, phase by phase\<close>

text \<open>
  The five phases as the specification words them, for a desired schema \<open>sc\<close> and an
  actual schema \<open>cur\<close>: lists of statements, built from the clauses above, not loops.
\<close>

text \<open>One statement for the table attributes, carrying the changed ones only.\<close>

definition Diff_attrs :: "(string \<Rightarrow> string) \<Rightarrow> Schema \<Rightarrow> Schema \<Rightarrow> string list" where
  "Diff_attrs escape sc cur =
     (if Schema_Engine sc \<noteq> Schema_Engine cur \<or> Schema_Collate sc \<noteq> Schema_Collate cur
         \<or> Schema_Comment sc \<noteq> Schema_Comment cur
      then [''ALTER TABLE '' @ quoted (Schema_Name sc)
            @ (if Schema_Engine sc \<noteq> Schema_Engine cur
               then '' ENGINE = '' @ Schema_Engine sc else '''')
            @ (if Schema_Collate sc \<noteq> Schema_Collate cur
               then '' COLLATE = '' @ Schema_Collate sc else '''')
            @ (if Schema_Comment sc \<noteq> Schema_Comment cur
               then '' COMMENT = '' @ apostrophe @ escape (Schema_Comment sc) @ apostrophe
               else '''')]
      else [])"

text \<open>A drop for every field of \<open>cur\<close> whose name no field of \<open>sc\<close> has, in the order
  of \<open>cur\<close>.\<close>

definition Diff_drop_fields :: "Schema \<Rightarrow> Schema \<Rightarrow> string list" where
  "Diff_drop_fields sc cur =
     map (\<lambda>field. ''ALTER TABLE '' @ quoted (Schema_Name sc) @ '' DROP ''
                     @ quoted (Field_Name field))
       (filter (\<lambda>field. Field_Name field \<notin> set (map Field_Name (Schema_Fields sc)))
          (Schema_Fields cur))"

text \<open>For every field of \<open>sc\<close>, in the order of \<open>sc\<close>: an add when \<open>cur\<close> has no field
  of that name, a modify when it has one that is not equal, nothing otherwise.\<close>

definition Diff_field :: "(string \<Rightarrow> string) \<Rightarrow> Schema \<Rightarrow> Schema \<Rightarrow> Field \<Rightarrow> string list" where
  "Diff_field escape sc cur field =
     (case Schema_Field cur (Field_Name field) of
        None \<Rightarrow>
          [''ALTER TABLE '' @ quoted (Schema_Name sc) @ '' ADD '' @ column_clause escape field]
      | Some fd \<Rightarrow>
          if Field_Equal fd field then []
          else [''ALTER TABLE '' @ quoted (Schema_Name sc) @ '' MODIFY ''
                @ column_clause escape field])"

definition Diff_fields :: "(string \<Rightarrow> string) \<Rightarrow> Schema \<Rightarrow> Schema \<Rightarrow> string list" where
  "Diff_fields escape sc cur = concat (map (Diff_field escape sc cur) (Schema_Fields sc))"

text \<open>A drop by name for every index of \<open>cur\<close> that \<open>sc\<close> does not have, in the order of
  \<open>cur\<close>. An index is present in \<open>sc\<close> under a name when \<open>sc\<close> has an index of that
  name, or, for the names \<open>PRIMARY\<close> and the empty one, an index that is primary or has
  the empty name.\<close>

definition Index_present :: "Schema \<Rightarrow> string \<Rightarrow> bool" where
  "Index_present sc name =
     (if name = ''PRIMARY'' \<or> name = ''''
      then \<exists>i \<in> set (Schema_Indices sc). Index_Name i = '''' \<or> Index_Primary i
      else name \<in> set (map Index_Name (Schema_Indices sc)))"

definition Diff_drop_indexs :: "Schema \<Rightarrow> Schema \<Rightarrow> string list" where
  "Diff_drop_indexs sc cur =
     map (\<lambda>index. ''ALTER TABLE '' @ quoted (Schema_Name sc) @ '' DROP INDEX ''
                     @ quoted (Index_Name index))
       (filter (\<lambda>index. \<not> Index_present sc (Index_Name index)) (Schema_Indices cur))"

text \<open>For every index of \<open>sc\<close>, in the order of \<open>sc\<close>: an add when \<open>cur\<close> has no such
  index, a replace (drop and add in one statement) when it has one that is not equal,
  nothing otherwise.\<close>

definition Diff_index :: "Schema \<Rightarrow> Schema \<Rightarrow> Index \<Rightarrow> string list" where
  "Diff_index sc cur index =
     (case Schema_Index cur (Index_Name index) of
        None \<Rightarrow>
          [''ALTER TABLE '' @ quoted (Schema_Name sc) @ '' ADD '' @ index_clause index]
      | Some idx \<Rightarrow>
          if Index_Equal idx index then []
          else [''ALTER TABLE '' @ quoted (Schema_Name sc) @ '' DROP ''
                @ (if Index_Primary index then ''PRIMARY KEY''
                   else ''INDEX '' @ quoted (Index_Name index))
                @ '', ADD '' @ index_clause index])"

definition Diff_indexs :: "Schema \<Rightarrow> Schema \<Rightarrow> string list" where
  "Diff_indexs sc cur = concat (map (Diff_index sc cur) (Schema_Indices sc))"

definition Diff :: "(string \<Rightarrow> string) \<Rightarrow> Schema \<Rightarrow> Schema \<Rightarrow> string list" where
  "Diff escape sc cur =
     Diff_attrs escape sc cur @ Diff_drop_fields sc cur @ Diff_fields escape sc cur
       @ Diff_drop_indexs sc cur @ Diff_indexs sc cur"

section \<open>Concrete databases and schemas\<close>

text \<open>
  A database named \<open>test\<close> that holds one table, given by its three metadata answers,
  and accepts every statement; and a database that holds no table.
\<close>

definition db_with_table ::
  "string \<Rightarrow> string \<times> string \<times> string \<Rightarrow> column_row list \<Rightarrow> statistics_row list \<Rightarrow> DB" where
  "db_with_table name info columns statistics =
     \<lparr>DB_database = Inr ''test'',
      DB_tables = (\<lambda>d n. if d = ''test'' \<and> n = name then Inr info else Inl ErrNoRows),
      DB_columns = (\<lambda>d n. if d = ''test'' \<and> n = name then Inr (map Inr columns) else Inr []),
      DB_statistics =
        (\<lambda>d n. if d = ''test'' \<and> n = name then Inr (map Inr statistics) else Inr []),
      DB_exec = (\<lambda>log sql. None)\<rparr>"

definition db_without_tables :: DB where
  "db_without_tables =
     \<lparr>DB_database = Inr ''test'',
      DB_tables = (\<lambda>d n. Inl ErrNoRows),
      DB_columns = (\<lambda>d n. Inr []),
      DB_statistics = (\<lambda>d n. Inr []),
      DB_exec = (\<lambda>log sql. None)\<rparr>"

text \<open>Three indexes: one named \<open>PRIMARY\<close> that is not primary, one with the empty name
  that is not primary, and the primary key.\<close>

definition shadowed_primary :: Schema where
  "shadowed_primary =
     \<lparr>Schema_Name = ''t'', Schema_Fields = [],
      Schema_Indices =
        [\<lparr>Index_Name = ''PRIMARY'', Index_Columns = [''c''], Index_Primary = False,
          Index_Unique = False\<rparr>,
         \<lparr>Index_Name = '''', Index_Columns = [''a''], Index_Primary = False,
          Index_Unique = False\<rparr>,
         \<lparr>Index_Name = ''PRIMARY'', Index_Columns = [''id''], Index_Primary = True,
          Index_Unique = False\<rparr>],
      Schema_Engine = '''', Schema_Collate = '''', Schema_Comment = ''''\<rparr>"

text \<open>The table of the end-to-end scenario of the specification, with a comment that holds a
  single quote, and the statement \<open>Create\<close> builds for it under \<open>escape_sample\<close>.\<close>

definition users_table :: Schema where
  "users_table =
     \<lparr>Schema_Name = ''users'',
      Schema_Fields =
        [\<lparr>Field_Name = ''id'', Field_Type = ''bigint(20)'', Field_Nullable = False,
          Field_AutoIncrement = True, Field_DefaultValue = '''', Field_Comment = ''''\<rparr>,
         \<lparr>Field_Name = ''name'', Field_Type = ''varchar(64)'', Field_Nullable = True,
          Field_AutoIncrement = False, Field_DefaultValue = '''',
          Field_Comment = ''the user's name''\<rparr>],
      Schema_Indices =
        [\<lparr>Index_Name = ''PRIMARY'', Index_Columns = [''id''], Index_Primary = True,
          Index_Unique = False\<rparr>,
         \<lparr>Index_Name = ''idx_name'', Index_Columns = [''name''], Index_Primary = False,
          Index_Unique = True\<rparr>],
      Schema_Engine = ''InnoDB'', Schema_Collate = '''', Schema_Comment = ''''\<rparr>"

definition users_create_statement :: string where
  "users_create_statement =
     ''CREATE TABLE IF NOT EXISTS `users` (''
     @ ''`id` bigint(20) NOT NULL AUTO_INCREMENT,''
     @ ''`name` varchar(64) NULL COMMENT '' @ apostrophe
     @ ''the user'' @ [CHR 0x5C, CHR 0x27] @ ''s name'' @ apostrophe @ '',''
     @ ''PRIMARY KEY (`id`),UNIQUE KEY `idx_name` (`name`)) ENGINE=InnoDB''"

text \<open>A database that holds the table \<open>users\<close> exactly as \<open>users_table\<close> describes it.\<close>

definition users_db :: DB where
  "users_db =
     db_with_table ''users'' (''InnoDB'', '''', '''')
       [(''id'', ''bigint(20)'', ''NO'', None, '''', ''auto_increment''),
        (''name'', ''varchar(64)'', ''YES'', None, ''the user's name'', '''')]
       [(''PRIMARY'', 1, ''id'', 0),
        (''idx_name'', 1, ''name'', 0)]"

text \<open>
  A database whose table \<open>users\<close> is older than \<open>users_table\<close>: another engine, a
  column and an index that are no longer wanted, a column and an index still missing.
  \<open>legacy_users\<close> is the schema read from it, \<open>users_migration\<close> the statements
  that reconcile it.
\<close>

definition legacy_users_db :: DB where
  "legacy_users_db =
     db_with_table ''users'' (''MyISAM'', '''', '''')
       [(''id'', ''bigint(20)'', ''NO'', None, '''', ''auto_increment''),
        (''titleX'', ''varchar(255)'', ''YES'', None, '''', '''')]
       [(''PRIMARY'', 1, ''id'', 0),
        (''old_idx'', 1, ''titleX'', 1)]"

definition legacy_users :: Schema where
  "legacy_users =
     \<lparr>Schema_Name = ''users'',
      Schema_Fields =
        [\<lparr>Field_Name = ''id'', Field_Type = ''bigint(20)'', Field_Nullable = False,
          Field_AutoIncrement = True, Field_DefaultValue = '''', Field_Comment = ''''\<rparr>,
         \<lparr>Field_Name = ''titleX'', Field_Type = ''varchar(255)'', Field_Nullable = True,
          Field_AutoIncrement = False, Field_DefaultValue = '''', Field_Comment = ''''\<rparr>],
      Schema_Indices =
        [\<lparr>Index_Name = ''PRIMARY'', Index_Columns = [''id''], Index_Primary = True,
          Index_Unique = False\<rparr>,
         \<lparr>Index_Name = ''old_idx'', Index_Columns = [''titleX''], Index_Primary = False,
          Index_Unique = False\<rparr>],
      Schema_Engine = ''MyISAM'', Schema_Collate = '''', Schema_Comment = ''''\<rparr>"

definition users_migration :: "string list" where
  "users_migration =
     [''ALTER TABLE `users` ENGINE = InnoDB'',
      ''ALTER TABLE `users` DROP `titleX`'',
      ''ALTER TABLE `users` ADD `name` varchar(64) NULL COMMENT '' @ apostrophe
        @ ''the user'' @ [CHR 0x5C, CHR 0x27] @ ''s name'' @ apostrophe,
      ''ALTER TABLE `users` DROP INDEX `old_idx`'',
      ''ALTER TABLE `users` ADD UNIQUE KEY `idx_name` (`name`)'']"

text \<open>The default value with the text \<open>NULL\<close> read as no default.\<close>

definition normalized_default :: "string \<Rightarrow> string" where
  "normalized_default d = (if d = ''NULL'' then '''' else d)"

text \<open>A column as a caller declares it, without default, and as the catalog may report it,
  with the default \<open>NULL\<close>; and a table of one column.\<close>

definition age_declared :: Field where
  "age_declared =
     \<lparr>Field_Name = ''age'', Field_Type = ''int(11)'', Field_Nullable = True,
      Field_AutoIncrement = False, Field_DefaultValue = '''', Field_Comment = ''''\<rparr>"

definition age_read :: Field where
  "age_read = age_declared\<lparr>Field_DefaultValue := ''NULL''\<rparr>"

definition ages :: "Field \<Rightarrow> Schema" where
  "ages field =
     \<lparr>Schema_Name = ''ages'', Schema_Fields = [field], Schema_Indices = [],
      Schema_Engine = '''', Schema_Collate = '''', Schema_Comment = ''''\<rparr>"

text \<open>A table with an index on the columns \<open>a\<close>, \<open>b\<close>, and a database that holds it
  with the index on \<open>b\<close>, \<open>a\<close>.\<close>

definition pairs_table :: Schema where
  "pairs_table =
     \<lparr>Schema_Name = ''pairs'',
      Schema_Fields =
        [\<lparr>Field_Name = ''a'', Field_Type = ''int(11)'', Field_Nullable = False,
          Field_AutoIncrement = False, Field_DefaultValue = '''', Field_Comment = ''''\<rparr>,
         \<lparr>Field_Name = ''b'', Field_Type = ''int(11)'', Field_Nullable = False,
          Field_AutoIncrement = False, Field_DefaultValue = '''', Field_Comment = ''''\<rparr>],
      Schema_Indices =
        [\<lparr>Index_Name = ''idx_ab'', Index_Columns = [''a'', ''b''], Index_Primary = False,
          Index_Unique = False\<rparr>],
      Schema_Engine = ''InnoDB'', Schema_Collate = '''', Schema_Comment = ''''\<rparr>"

definition pairs_db :: DB where
  "pairs_db =
     db_with_table ''pairs'' (''InnoDB'', '''', '''')
       [(''a'', ''int(11)'', ''NO'', None, '''', ''''),
        (''b'', ''int(11)'', ''NO'', None, '''', '''')]
       [(''idx_ab'', 1, ''b'', 1),
        (''idx_ab'', 2, ''a'', 1)]"

text \<open>The table \<open>users\<close> wanted without its primary key.\<close>

definition users_without_key :: Schema where
  "users_without_key =
     users_table\<lparr>Schema_Indices :=
       [\<lparr>Index_Name = ''idx_name'', Index_Columns = [''name''], Index_Primary = False,
         Index_Unique = True\<rparr>]\<rparr>"

text \<open>
  The statement of \<open>Create\<close> in the words of section 4.4: the column clauses in field
  order, the index clauses in index order, each followed by a comma, the last character
  cut, the closing parenthesis, the table attributes.
\<close>

definition Create_statement :: "(string \<Rightarrow> string) \<Rightarrow> Schema \<Rightarrow> string" where
  "Create_statement escape sc =
     ''CREATE TABLE IF NOT EXISTS '' @ quoted (Schema_Name sc) @ '' ''
     @ butlast (''(''
          @ concat (map (\<lambda>field. column_clause escape field @ '','') (Schema_Fields sc))
          @ concat (map (\<lambda>index. index_clause index @ '','') (Schema_Indices sc)))
     @ '')'' @ table_attrs escape sc"

text \<open>The table \<open>users\<close> with its primary key listed after the other index, and the
  statement \<open>Create\<close> builds for it.\<close>

definition users_key_last :: Schema where
  "users_key_last =
     users_table\<lparr>Schema_Indices :=
       [\<lparr>Index_Name = ''idx_name'', Index_Columns = [''name''], Index_Primary = False,
         Index_Unique = True\<rparr>,
        \<lparr>Index_Name = ''PRIMARY'', Index_Columns = [''id''], Index_Primary = True,
         Index_Unique = False\<rparr>]\<rparr>"

definition users_key_last_statement :: string where
  "users_key_last_statement =
     ''CREATE TABLE IF NOT EXISTS `users` (''
     @ ''`id` bigint(20) NOT NULL AUTO_INCREMENT,''
     @ ''`name` varchar(64) NULL COMMENT '' @ apostrophe
     @ ''the user'' @ [CHR 0x5C, CHR 0x27] @ ''s name'' @ apostrophe @ '',''
     @ ''UNIQUE KEY `idx_name` (`name`),PRIMARY KEY (`id`)) ENGINE=InnoDB''"

text \<open>The table \<open>users\<close> wanted with one more index, on no column at all, and the
  statement \<open>Create\<close> builds for it.\<close>

definition users_empty_index :: Schema where
  "users_empty_index =
     users_table\<lparr>Schema_Indices := Schema_Indices users_table @
       [\<lparr>Index_Name = ''idx_none'', Index_Columns = [], Index_Primary = False,
         Index_Unique = False\<rparr>]\<rparr>"

definition users_empty_index_statement :: string where
  "users_empty_index_statement =
     ''CREATE TABLE IF NOT EXISTS `users` (''
     @ ''`id` bigint(20) NOT NULL AUTO_INCREMENT,''
     @ ''`name` varchar(64) NULL COMMENT '' @ apostrophe
     @ ''the user'' @ [CHR 0x5C, CHR 0x27] @ ''s name'' @ apostrophe @ '',''
     @ ''PRIMARY KEY (`id`),UNIQUE KEY `idx_name` (`name`),KEY `idx_none` )) ENGINE=InnoDB''"

text \<open>A column whose default value holds a single quote, a table of that column alone, and
  the table \<open>users\<close> wanted with that column.\<close>

definition nick :: Field where
  "nick =
     \<lparr>Field_Name = ''nick'', Field_Type = ''varchar(16)'', Field_Nullable = False,
      Field_AutoIncrement = False, Field_DefaultValue = ''it's'', Field_Comment = ''''\<rparr>"

definition nicks_table :: Schema where
  "nicks_table =
     \<lparr>Schema_Name = ''nicks'', Schema_Fields = [nick], Schema_Indices = [],
      Schema_Engine = '''', Schema_Collate = '''', Schema_Comment = ''''\<rparr>"

definition users_with_nick :: Schema where
  "users_with_nick = users_table\<lparr>Schema_Fields := Schema_Fields users_table @ [nick]\<rparr>"

section \<open>The statements of ALTER TABLE, form by form\<close>

text \<open>
  The statements section 4.4 allows for a desired schema \<open>sc\<close> and an actual schema
  \<open>cur\<close>, each with the condition of section 4.3 under which it is due: the change of
  the table attributes, the drop of a field, the add and the modify of a field, the drop of
  an index, the add and the replace of an index. Every name stands in back quotes, every
  comment is passed through \<open>escape\<close>; the clauses are those of the closed forms above.
\<close>

definition Alter_statement :: "(string \<Rightarrow> string) \<Rightarrow> Schema \<Rightarrow> Schema \<Rightarrow> string \<Rightarrow> bool" where
  "Alter_statement escape sc cur s =
     (((Schema_Engine sc \<noteq> Schema_Engine cur \<or> Schema_Collate sc \<noteq> Schema_Collate cur
          \<or> Schema_Comment sc \<noteq> Schema_Comment cur)
        \<and> s = ''ALTER TABLE '' @ quoted (Schema_Name sc)
              @ (if Schema_Engine sc \<noteq> Schema_Engine cur
                 then '' ENGINE = '' @ Schema_Engine sc else '''')
              @ (if Schema_Collate sc \<noteq> Schema_Collate cur
                 then '' COLLATE = '' @ Schema_Collate sc else '''')
              @ (if Schema_Comment sc \<noteq> Schema_Comment cur
                 then '' COMMENT = '' @ apostrophe @ escape (Schema_Comment sc) @ apostrophe
                 else ''''))
      \<or> (\<exists>field \<in> set (Schema_Fields cur).
            Schema_Field sc (Field_Name field) = None
            \<and> s = ''ALTER TABLE '' @ quoted (Schema_Name sc) @ '' DROP ''
                  @ quoted (Field_Name field))
      \<or> (\<exists>field \<in> set (Schema_Fields sc).
            Schema_Field cur (Field_Name field) = None
            \<and> s = ''ALTER TABLE '' @ quoted (Schema_Name sc) @ '' ADD ''
                  @ column_clause escape field)
      \<or> (\<exists>field \<in> set (Schema_Fields sc).
            (case Schema_Field cur (Field_Name field) of
               None \<Rightarrow> False
             | Some fd \<Rightarrow> \<not> Field_Equal fd field)
            \<and> s = ''ALTER TABLE '' @ quoted (Schema_Name sc) @ '' MODIFY ''
                  @ column_clause escape field)
      \<or> (\<exists>index \<in> set (Schema_Indices cur).
            Schema_Index sc (Index_Name index) = None
            \<and> s = ''ALTER TABLE '' @ quoted (Schema_Name sc) @ '' DROP INDEX ''
                  @ quoted (Index_Name index))
      \<or> (\<exists>index \<in> set (Schema_Indices sc).
            Schema_Index cur (Index_Name index) = None
            \<and> s = ''ALTER TABLE '' @ quoted (Schema_Name sc) @ '' ADD ''
                  @ index_clause index)
      \<or> (\<exists>index \<in> set (Schema_Indices sc).
            (case Schema_Index cur (Index_Name index) of
               None \<Rightarrow> False
             | Some idx \<Rightarrow> \<not> Index_Equal idx index)
            \<and> s = ''ALTER TABLE '' @ quoted (Schema_Name sc) @ '' DROP ''
                  @ (if Index_Primary index then ''PRIMARY KEY''
                     else ''INDEX '' @ quoted (Index_Name index))
                  @ '', ADD '' @ index_clause index))"


text \<open>The table \<open>users\<close> wanted with a primary key on two columns.\<close>

definition users_key_wider :: Schema where
  "users_key_wider =
     users_table\<lparr>Schema_Indices :=
       [\<lparr>Index_Name = ''PRIMARY'', Index_Columns = [''id'', ''name''], Index_Primary = True,
         Index_Unique = False\<rparr>,
        \<lparr>Index_Name = ''idx_name'', Index_Columns = [''name''], Index_Primary = False,
         Index_Unique = True\<rparr>]\<rparr>"

text \<open>The database of \<open>users_db\<close>, refusing every statement.\<close>

definition strict_users_db :: DB where
  "strict_users_db = users_db\<lparr>DB_exec := (\<lambda>log sql. Some (DriverError ''refused''))\<rparr>"

section \<open>Properties of the lookups and of the equality predicates\<close>

lemma Index_loop_find:
  "Index_loop xs name =
     find (\<lambda>i. Index_Name i = name \<or> (name = '''' \<and> Index_Primary i)) xs"
  by (induction xs) simp_all

lemma Field_loop_find:
  "Field_loop xs name = find (\<lambda>f. Field_Name f = name) xs"
  by (induction xs) simp_all

lemma Columns_loop_eq:
  "length cs = length ds \<Longrightarrow> Columns_loop cs ds = (cs = ds)"
  by (induction cs ds rule: Columns_loop.induct) auto

lemma Index_Equal_iff:
  "Index_Equal idx other \<longleftrightarrow>
     Index_Primary idx = Index_Primary other \<and>
     (Index_Primary idx \<or> Index_Name idx = Index_Name other) \<and>
     Index_Unique idx = Index_Unique other \<and>
     Index_Columns idx = Index_Columns other"
  by (auto simp: Index_Equal_def Columns_loop_eq)

lemma Field_Equal_iff:
  "Field_Equal fd other \<longleftrightarrow>
     Field_Name fd = Field_Name other \<and>
     Field_Type fd = Field_Type other \<and>
     Field_Nullable fd = Field_Nullable other \<and>
     Field_AutoIncrement fd = Field_AutoIncrement other \<and>
     (if Field_DefaultValue fd = ''NULL'' then '''' else Field_DefaultValue fd) =
       (if Field_DefaultValue other = ''NULL'' then '''' else Field_DefaultValue other) \<and>
     Field_Comment fd = Field_Comment other"
  by (simp add: Field_Equal_def Let_def)

section \<open>The loops of Update send the change list\<close>

lemma exec_all_append:
  "exec_all db log (xs @ ys) =
     (case exec_all db log xs of
        (log', Some e) \<Rightarrow> (log', Some e)
      | (log', None) \<Rightarrow> exec_all db log' ys)"
  by (induction xs arbitrary: log) (auto split: option.splits)

lemma exec_all_accepts:
  "accepts_all db \<Longrightarrow> exec_all db log xs = (log @ xs, None)"
  by (induction xs arbitrary: log) (auto simp: accepts_all_def)

lemma exec_all_prefix:
  "\<exists>k. fst (exec_all db log xs) = log @ take k xs"
proof (induction xs arbitrary: log)
  case Nil
  then show ?case by simp
next
  case (Cons x xs)
  show ?case
  proof (cases "DB_exec db log x")
    case None
    from Cons.IH [of "log @ [x]"] obtain k
      where "fst (exec_all db (log @ [x]) xs) = (log @ [x]) @ take k xs" by blast
    with None have "fst (exec_all db log (x # xs)) = log @ take (Suc k) (x # xs)" by simp
    then show ?thesis by blast
  next
    case (Some e)
    then have "fst (exec_all db log (x # xs)) = log @ take (Suc 0) (x # xs)" by simp
    then show ?thesis by blast
  qed
qed

lemma Update_drop_fields_exec:
  "Update_drop_fields db sc log fs =
     exec_all db log
       (map (\<lambda>field. ''ALTER TABLE `'' @ Schema_Name sc @ ''` DROP `'' @ Field_Name field @ ''`'')
          (filter (\<lambda>field. Schema_Field sc (Field_Name field) = None) fs))"
  by (induction fs arbitrary: log) (auto simp: ExecContext_def split: option.splits)

lemma Update_fields_exec:
  "Update_fields db escape sc cur log fs =
     exec_all db log
       (map (\<lambda>field. Field_attrs escape field (Field_change_sql sc cur field))
          (filter (\<lambda>field. Field_change_sql sc cur field \<noteq> '''') fs))"
  by (induction fs arbitrary: log) (auto simp: ExecContext_def Let_def split: option.splits)

lemma Update_drop_indexs_exec:
  "Update_drop_indexs db sc log xs =
     exec_all db log
       (map (\<lambda>index. ''ALTER TABLE `'' @ Schema_Name sc @ ''` DROP INDEX `''
                       @ Index_Name index @ ''`'')
          (filter (\<lambda>index. Schema_Index sc (Index_Name index) = None) xs))"
  by (induction xs arbitrary: log) (auto simp: ExecContext_def split: option.splits)

lemma Columns_append_concat:
  "Columns_append sql cols = sql @ concat (map (\<lambda>c. ''`'' @ c @ ''`,'') cols)"
  by (induction cols arbitrary: sql) simp_all

lemma slice_last_Columns_append:
  "sql \<noteq> [] \<Longrightarrow>
     slice_last (Columns_append sql cols) = Inr (butlast (Columns_append sql cols))"
  by (simp add: slice_last_def Columns_append_concat)

lemma Update_indexs_exec:
  "Update_indexs db sc cur log xs =
     exec_all db log
       (map (\<lambda>index. butlast (Columns_append (Index_change_sql sc cur index)
                                (Index_Columns index)) @ '')'')
          (filter (\<lambda>index. Index_change_sql sc cur index \<noteq> '''') xs))"
  by (induction xs arbitrary: log)
     (auto simp: ExecContext_def Let_def slice_last_Columns_append split: option.splits)

section \<open>Index lookup\<close>

text \<open>
  Claim C10. \<open>Schema.Index\<close> answers the names \<open>PRIMARY\<close> and the empty name alike:
  both give the first index, in index order, whose name is empty or which is primary.
  So an index that is not primary and has the empty name is returned in place of the
  primary index when it comes first, and an index named \<open>PRIMARY\<close> that is not primary is
  returned by neither lookup.
\<close>

theorem Schema_Index_PRIMARY_is_empty_name:
  "Schema_Index sc ''PRIMARY'' = Schema_Index sc ''''
   \<and> Schema_Index sc '''' =
       find (\<lambda>i. Index_Name i = '''' \<or> Index_Primary i) (Schema_Indices sc)
   \<and> (Schema_Indices sc = before @ e # after
        \<and> (\<forall>j \<in> set before. Index_Name j \<noteq> '''' \<and> \<not> Index_Primary j)
        \<and> Index_Name e = '''' \<and> \<not> Index_Primary e
       \<longrightarrow> Schema_Index sc ''PRIMARY'' = Some e)
   \<and> (\<forall>name \<in> {''PRIMARY'', ''''}. \<forall>i. Schema_Index sc name = Some i
        \<longrightarrow> \<not> (Index_Name i = ''PRIMARY'' \<and> \<not> Index_Primary i))"
proof -
  let ?P = "\<lambda>i. Index_Name i = '''' \<or> Index_Primary i"
  have eq: "Schema_Index sc ''PRIMARY'' = find ?P (Schema_Indices sc)"
    and eq': "Schema_Index sc '''' = find ?P (Schema_Indices sc)"
    by (simp_all add: Schema_Index_def Index_loop_find)
  have first: "find ?P (before @ e # after) = Some e"
    if "\<forall>j \<in> set before. Index_Name j \<noteq> '''' \<and> \<not> Index_Primary j" "Index_Name e = ''''"
    using that by (induction before) auto
  have sound: "\<not> (Index_Name i = ''PRIMARY'' \<and> \<not> Index_Primary i)"
    if "find ?P (Schema_Indices sc) = Some i" for i
  proof -
    from that have "?P i" by (metis (mono_tags, lifting) find_Some_iff)
    then show ?thesis by auto
  qed
  have c1: "Schema_Index sc ''PRIMARY'' = Schema_Index sc ''''"
    using eq eq' by simp
  have c3: "Schema_Indices sc = before @ e # after
        \<and> (\<forall>j \<in> set before. Index_Name j \<noteq> '''' \<and> \<not> Index_Primary j)
        \<and> Index_Name e = '''' \<and> \<not> Index_Primary e
       \<longrightarrow> Schema_Index sc ''PRIMARY'' = Some e"
    using first eq by simp
  have c4: "\<forall>name \<in> {''PRIMARY'', ''''}. \<forall>i. Schema_Index sc name = Some i
        \<longrightarrow> \<not> (Index_Name i = ''PRIMARY'' \<and> \<not> Index_Primary i)"
    using sound eq eq' by (metis insertE singletonD)
  from c1 eq' c3 c4 show ?thesis by blast
qed

theorem Schema_Index_PRIMARY_is_empty_name_witness:
  "Schema_Index shadowed_primary ''PRIMARY'' =
     Some \<lparr>Index_Name = '''', Index_Columns = [''a''], Index_Primary = False,
           Index_Unique = False\<rparr>
   \<and> Schema_Index shadowed_primary '''' = Schema_Index shadowed_primary ''PRIMARY''"
  using Schema_Index_PRIMARY_is_empty_name
    [of shadowed_primary
        "[\<lparr>Index_Name = ''PRIMARY'', Index_Columns = [''c''], Index_Primary = False,
          Index_Unique = False\<rparr>]"
        "\<lparr>Index_Name = '''', Index_Columns = [''a''], Index_Primary = False,
          Index_Unique = False\<rparr>"
        "[\<lparr>Index_Name = ''PRIMARY'', Index_Columns = [''id''], Index_Primary = True,
          Index_Unique = False\<rparr>]"]
  by (simp add: shadowed_primary_def)

section \<open>The statement of Create in closed form\<close>

lemma Field_attrs_tail:
  "Field_attrs escape field sql = sql @ column_tail escape field"
  by (simp add: Field_attrs_def column_tail_def Let_def)

lemma Create_fields_concat:
  "Create_fields escape sql fs = sql @ concat (map (\<lambda>f. column_clause escape f @ '','') fs)"
  by (induction fs arbitrary: sql)
     (simp_all add: Let_def Field_attrs_tail column_clause_def quoted_def)

lemma index_head_nonempty: "index_head index \<noteq> []"
  by (simp add: index_head_def)

lemma Create_indices_step:
  "slice_last (Columns_append (sql @ index_head index) cols) =
     Inr (sql @ butlast (index_head index @ concat (map (\<lambda>c. quoted c @ '','') cols)))"
  by (simp add: slice_last_def Columns_append_concat index_head_nonempty butlast_append
        quoted_def)

lemma Create_indices_head:
  "(if Index_Primary index then sql @ ''PRIMARY KEY (''
    else if Index_Unique index then sql @ ''UNIQUE KEY `'' @ Index_Name index @ ''` (''
    else sql @ ''KEY `'' @ Index_Name index @ ''` ('') = sql @ index_head index"
  by (simp add: index_head_def quoted_def)

lemma Create_indices_concat:
  "Create_indices sql xs = Inr (sql @ concat (map (\<lambda>i. index_clause i @ '','') xs))"
proof (induction xs arbitrary: sql)
  case Nil
  then show ?case by simp
next
  case (Cons index xs)
  show ?case
    unfolding Create_indices.simps Let_def Create_indices_head Create_indices_step
    by (simp add: Cons.IH index_clause_def)
qed

lemma Create_sql_closed:
  "Create_sql escape sc =
     Inr (''CREATE TABLE IF NOT EXISTS `'' @ Schema_Name sc @ ''` ''
          @ butlast (''('' @ concat (map (\<lambda>f. column_clause escape f @ '','') (Schema_Fields sc))
                         @ concat (map (\<lambda>i. index_clause i @ '','') (Schema_Indices sc)))
          @ '')'' @ table_attrs escape sc)"
  unfolding Create_sql_def Let_def Create_fields_concat Create_indices_concat
  by (simp add: slice_last_def butlast_append table_attrs_def)


section \<open>A table that does not exist\<close>

text \<open>
  Claim C8. When the probe of the table metadata finds no row, \<open>ReadFromDB\<close> returns the
  absent result, a nil schema and a nil error; \<open>Update\<close> then takes the path of
  \<open>Create\<close>: the one statement it sends begins with \<open>CREATE TABLE IF NOT EXISTS\<close> and
  the table's name, and no statement it sends begins with \<open>ALTER\<close>.
\<close>

theorem ReadFromDB_absent_table_creates:
  assumes "DB_database db = Inr dbName"
    and "DB_tables db dbName (Schema_Name sc) = Inl ErrNoRows"
  shows "ReadFromDB db (Schema_Name sc) = Inr None
    \<and> (\<exists>rest. Schema_Update db escape sc =
          ([''CREATE TABLE IF NOT EXISTS `'' @ Schema_Name sc @ ''` '' @ rest],
           DB_exec db [] (''CREATE TABLE IF NOT EXISTS `'' @ Schema_Name sc @ ''` '' @ rest)))
    \<and> (\<forall>sql \<in> set (fst (Schema_Update db escape sc)). \<not> prefix ''ALTER'' sql)"
proof -
  have read: "ReadFromDB db (Schema_Name sc) = Inr None"
    using assms by (simp add: ReadFromDB_def)
  obtain rest where sql:
    "Create_sql escape sc =
       Inr (''CREATE TABLE IF NOT EXISTS `'' @ Schema_Name sc @ ''` '' @ rest)"
    using Create_sql_closed [of escape sc] by blast
  have run: "Schema_Update db escape sc =
          ([''CREATE TABLE IF NOT EXISTS `'' @ Schema_Name sc @ ''` '' @ rest],
           DB_exec db [] (''CREATE TABLE IF NOT EXISTS `'' @ Schema_Name sc @ ''` '' @ rest))"
    by (simp add: Schema_Update_def read Schema_Create_def sql ExecContext_def)
  have "\<not> prefix ''ALTER'' (''CREATE TABLE IF NOT EXISTS `'' @ Schema_Name sc @ ''` '' @ rest)"
    by simp
  with run have "\<forall>sql \<in> set (fst (Schema_Update db escape sc)). \<not> prefix ''ALTER'' sql"
    by simp
  with read run show ?thesis by blast
qed

theorem ReadFromDB_absent_table_creates_witness:
  "DB_database db_without_tables = Inr ''test''
   \<and> DB_tables db_without_tables ''test'' (Schema_Name users_table) = Inl ErrNoRows
   \<and> ReadFromDB db_without_tables ''users'' = Inr None
   \<and> Schema_Update db_without_tables escape_sample users_table =
       ([users_create_statement], None)"
proof -
  have h1: "DB_database db_without_tables = Inr ''test''"
    by (simp add: db_without_tables_def)
  have h2: "DB_tables db_without_tables ''test'' (Schema_Name users_table) = Inl ErrNoRows"
    by (simp add: db_without_tables_def)
  have n: "Schema_Name users_table = ''users''"
    by (simp add: users_table_def)
  have c: "Create_sql escape_sample users_table = Inr users_create_statement"
    by (simp add: Create_sql_closed users_table_def column_clause_def column_tail_def
          index_clause_def index_head_def quoted_def table_attrs_def escape_sample_def
          apostrophe_def users_create_statement_def)
  from ReadFromDB_absent_table_creates [OF h1 h2, of escape_sample]
  have r: "ReadFromDB db_without_tables ''users'' = Inr None" by (simp add: n)
  have u: "Schema_Update db_without_tables escape_sample users_table =
       ([users_create_statement], None)"
    by (simp add: Schema_Update_def r n Schema_Create_def c ExecContext_def)
       (simp add: db_without_tables_def)
  from h1 h2 r u show ?thesis by blast
qed

section \<open>The change list is what the loops send\<close>

lemma map_filter_concat:
  "map f (filter P xs) = concat (map (\<lambda>x. if P x then [f x] else []) xs)"
  by (induction xs) simp_all

lemma Field_loop_None_iff:
  "Field_loop fs name = None \<longleftrightarrow> name \<notin> set (map Field_Name fs)"
  by (induction fs) auto

lemma Schema_Field_None_iff:
  "Schema_Field sc name = None \<longleftrightarrow> name \<notin> set (map Field_Name (Schema_Fields sc))"
  unfolding Schema_Field_def by (rule Field_loop_None_iff)

lemma Index_loop_None_iff:
  "Index_loop xs name = None \<longleftrightarrow>
     \<not> (\<exists>i \<in> set xs. Index_Name i = name \<or> (name = '''' \<and> Index_Primary i))"
  by (induction xs) auto

lemma Schema_Index_None_iff:
  "Schema_Index sc name = None \<longleftrightarrow> \<not> Index_present sc name"
  by (auto simp: Schema_Index_def Index_present_def Index_loop_None_iff)

lemma Diff_attrs_code:
  "(if Update_attrs escape sc cur \<noteq> ''''
    then [''ALTER TABLE `'' @ Schema_Name sc @ ''`'' @ Update_attrs escape sc cur] else []) =
   Diff_attrs escape sc cur"
  by (simp add: Update_attrs_def Diff_attrs_def quoted_def Let_def)

lemma Diff_drop_fields_code:
  "map (\<lambda>field. ''ALTER TABLE `'' @ Schema_Name sc @ ''` DROP `'' @ Field_Name field @ ''`'')
     (filter (\<lambda>field. Schema_Field sc (Field_Name field) = None) (Schema_Fields cur)) =
   Diff_drop_fields sc cur"
  by (simp add: Diff_drop_fields_def Schema_Field_None_iff quoted_def)

lemma Diff_field_code:
  "(if Field_change_sql sc cur field \<noteq> ''''
    then [Field_attrs escape field (Field_change_sql sc cur field)] else []) =
   Diff_field escape sc cur field"
  by (simp add: Field_change_sql_def Diff_field_def Field_attrs_tail column_clause_def
        quoted_def split: option.splits)

lemma Diff_fields_code:
  "map (\<lambda>field. Field_attrs escape field (Field_change_sql sc cur field))
     (filter (\<lambda>field. Field_change_sql sc cur field \<noteq> '''') (Schema_Fields sc)) =
   Diff_fields escape sc cur"
  unfolding map_filter_concat Diff_field_code Diff_fields_def ..

lemma Diff_drop_indexs_code:
  "map (\<lambda>index. ''ALTER TABLE `'' @ Schema_Name sc @ ''` DROP INDEX `''
                   @ Index_Name index @ ''`'')
     (filter (\<lambda>index. Schema_Index sc (Index_Name index) = None) (Schema_Indices cur)) =
   Diff_drop_indexs sc cur"
  by (simp add: Diff_drop_indexs_def Schema_Index_None_iff quoted_def)

lemma Index_change_sql_head:
  "Index_change_sql sc cur index =
     (case Schema_Index cur (Index_Name index) of
        None \<Rightarrow> ''ALTER TABLE '' @ quoted (Schema_Name sc) @ '' ADD '' @ index_head index
      | Some idx \<Rightarrow>
          if Index_Equal idx index then ''''
          else ''ALTER TABLE '' @ quoted (Schema_Name sc) @ '' DROP ''
               @ (if Index_Primary index then ''PRIMARY KEY''
                  else ''INDEX '' @ quoted (Index_Name index))
               @ '', ADD '' @ index_head index)"
  by (simp add: Index_change_sql_def index_head_def quoted_def split: option.splits)

lemma butlast_head_columns:
  "butlast (Columns_append (pre @ index_head index) (Index_Columns index)) @ '')'' =
     pre @ index_clause index"
  by (simp add: index_clause_def Columns_append_concat butlast_append index_head_nonempty
        quoted_def)

lemma Diff_index_code:
  "(if Index_change_sql sc cur index \<noteq> ''''
    then [butlast (Columns_append (Index_change_sql sc cur index) (Index_Columns index))
            @ '')''] else []) =
   Diff_index sc cur index"
proof (cases "Schema_Index cur (Index_Name index)")
  case None
  then have h: "Index_change_sql sc cur index =
      (''ALTER TABLE '' @ quoted (Schema_Name sc) @ '' ADD '') @ index_head index"
    by (simp add: Index_change_sql_head)
  have ne: "Index_change_sql sc cur index \<noteq> ''''"
    unfolding h by simp
  show ?thesis
    unfolding Diff_index_def None option.case if_P [OF ne]
    unfolding h butlast_head_columns [simplified]
    by simp
next
  case (Some idx)
  show ?thesis
  proof (cases "Index_Equal idx index")
    case True
    with Some show ?thesis by (simp add: Index_change_sql_head Diff_index_def)
  next
    case False
    with Some have h: "Index_change_sql sc cur index =
      (''ALTER TABLE '' @ quoted (Schema_Name sc) @ '' DROP ''
               @ (if Index_Primary index then ''PRIMARY KEY''
                  else ''INDEX '' @ quoted (Index_Name index))
               @ '', ADD '') @ index_head index"
      by (simp add: Index_change_sql_head)
    have ne: "Index_change_sql sc cur index \<noteq> ''''"
      unfolding h by simp
    show ?thesis
      unfolding Diff_index_def Some option.case if_P [OF ne] if_not_P [OF False]
      unfolding h butlast_head_columns [simplified]
      by simp
  qed
qed

lemma Diff_indexs_code:
  "map (\<lambda>index. butlast (Columns_append (Index_change_sql sc cur index)
                            (Index_Columns index)) @ '')'')
     (filter (\<lambda>index. Index_change_sql sc cur index \<noteq> '''') (Schema_Indices sc)) =
   Diff_indexs sc cur"
  unfolding map_filter_concat Diff_index_code Diff_indexs_def ..

lemma Schema_Update_exec:
  assumes "ReadFromDB db (Schema_Name sc) = Inr (Some cur)"
  shows "Schema_Update db escape sc = exec_all db [] (Diff escape sc cur)"
proof -
  have attrs: "(let sql = Update_attrs escape sc cur;
              (log, e) = (if sql \<noteq> ''''
                          then ExecContext db [] (''ALTER TABLE `'' @ Schema_Name sc @ ''`'' @ sql)
                          else ([], None)) in f log e) =
      (case exec_all db [] (Diff_attrs escape sc cur) of (log, e) \<Rightarrow> f log e)" for f :: "string list \<Rightarrow> error option \<Rightarrow> run"
    unfolding Diff_attrs_code [symmetric]
    by (simp add: Let_def ExecContext_def split: option.splits)
  show ?thesis
    unfolding Schema_Update_def assms sum.case option.case attrs
      Update_drop_fields_exec Update_fields_exec Update_drop_indexs_exec Update_indexs_exec
      Diff_drop_fields_code Diff_fields_code Diff_drop_indexs_code Diff_indexs_code Diff_def
    by (simp add: exec_all_append split: prod.splits option.splits)
qed


section \<open>Lookups in a schema that keeps the invariants\<close>

lemma find_unique:
  assumes "i \<in> set xs" and "P i" and "\<forall>j \<in> set xs. P j \<longrightarrow> j = i"
  shows "find P xs = Some i"
  using assms
proof (induction xs)
  case Nil
  then show ?case by simp
next
  case (Cons a xs)
  show ?case
  proof (cases "P a")
    case True
    with Cons.prems(3) have "a = i" by simp
    with True show ?thesis by simp
  next
    case False
    with Cons.prems(1,2) have "i \<in> set xs" by auto
    moreover from Cons.prems(3) have "\<forall>j \<in> set xs. P j \<longrightarrow> j = i" by simp
    ultimately have "find P xs = Some i" using Cons.IH Cons.prems(2) by blast
    with False show ?thesis by simp
  qed
qed

lemma distinct_map_eq:
  "distinct (map f xs) \<Longrightarrow> x \<in> set xs \<Longrightarrow> y \<in> set xs \<Longrightarrow> f x = f y \<Longrightarrow> x = y"
  by (auto simp: distinct_map dest: inj_onD)

lemma Field_loop_distinct:
  assumes "distinct (map Field_Name fs)" and "f \<in> set fs"
  shows "Field_loop fs (Field_Name f) = Some f"
  unfolding Field_loop_find
  using assms by (intro find_unique) (auto dest: distinct_map_eq)

lemma Schema_Field_wellformed:
  "Schema_wellformed sc \<Longrightarrow> f \<in> set (Schema_Fields sc) \<Longrightarrow>
     Schema_Field sc (Field_Name f) = Some f"
  by (simp add: Schema_wellformed_def Schema_Field_def Field_loop_distinct)

lemma Index_loop_wellformed:
  assumes d: "distinct (map Index_Name xs)"
    and p: "\<forall>i \<in> set xs. (Index_Name i = '''' \<or> Index_Name i = ''PRIMARY'') \<longrightarrow> Index_Primary i"
    and u: "\<forall>i \<in> set xs. \<forall>j \<in> set xs. Index_Primary i \<and> Index_Primary j \<longrightarrow> i = j"
    and i: "i \<in> set xs"
  shows "Index_loop xs (if Index_Name i = ''PRIMARY'' then '''' else Index_Name i) = Some i"
proof (cases "Index_Name i = '''' \<or> Index_Name i = ''PRIMARY''")
  case True
  then have n: "(if Index_Name i = ''PRIMARY'' then '''' else Index_Name i) = ''''" by auto
  from True p i have pi: "Index_Primary i" by blast
  have "find (\<lambda>j. Index_Name j = '''' \<or> Index_Primary j) xs = Some i"
  proof (rule find_unique [OF i])
    show "Index_Name i = '''' \<or> Index_Primary i" using pi by simp
    show "\<forall>j \<in> set xs. Index_Name j = '''' \<or> Index_Primary j \<longrightarrow> j = i"
    proof (intro ballI impI)
      fix j assume j: "j \<in> set xs" and "Index_Name j = '''' \<or> Index_Primary j"
      with p have "Index_Primary j" by blast
      with u i j pi show "j = i" by blast
    qed
  qed
  then show ?thesis unfolding n Index_loop_find by simp
next
  case False
  then have n: "(if Index_Name i = ''PRIMARY'' then '''' else Index_Name i) = Index_Name i"
    and ne: "Index_Name i \<noteq> ''''" by auto
  have "find (\<lambda>j. Index_Name j = Index_Name i) xs = Some i"
    by (rule find_unique [OF i]) (use d i in \<open>auto dest: distinct_map_eq\<close>)
  then show ?thesis unfolding n Index_loop_find using ne by simp
qed

lemma Schema_Index_wellformed:
  "Schema_wellformed sc \<Longrightarrow> i \<in> set (Schema_Indices sc) \<Longrightarrow>
     Schema_Index sc (Index_Name i) = Some i"
  unfolding Schema_wellformed_def Schema_Index_def Let_def
  by (intro Index_loop_wellformed) blast+

lemma Field_Equal_refl: "Field_Equal f f"
  by (simp add: Field_Equal_iff)

lemma Index_Equal_refl: "Index_Equal i i"
  by (simp add: Index_Equal_iff)

lemma concat_map_Nil: "(\<And>x. x \<in> set xs \<Longrightarrow> f x = []) \<Longrightarrow> concat (map f xs) = []"
  by (induction xs) simp_all

lemma Diff_fields_same:
  "Schema_wellformed sc \<Longrightarrow> Diff_fields escape sc sc = []"
  unfolding Diff_fields_def
  by (rule concat_map_Nil) (simp add: Diff_field_def Schema_Field_wellformed Field_Equal_refl)

lemma Diff_indexs_same:
  "Schema_wellformed sc \<Longrightarrow> Diff_indexs sc sc = []"
  unfolding Diff_indexs_def
  by (rule concat_map_Nil) (simp add: Diff_index_def Schema_Index_wellformed Index_Equal_refl)

lemma Diff_drop_fields_same: "Diff_drop_fields sc sc = []"
  by (simp add: Diff_drop_fields_def)

lemma Diff_drop_indexs_same:
  "Schema_wellformed sc \<Longrightarrow> Diff_drop_indexs sc sc = []"
  by (simp add: Diff_drop_indexs_def Schema_Index_None_iff [symmetric] Schema_Index_wellformed
        filter_empty_conv)

lemma Diff_attrs_same: "Diff_attrs escape sc sc = []"
  by (simp add: Diff_attrs_def)

lemma ReadFromDB_users_db: "ReadFromDB users_db ''users'' = Inr (Some users_table)"
  by (simp add: ReadFromDB_def users_db_def db_with_table_def users_table_def)

lemma users_table_wellformed: "Schema_wellformed users_table"
  by (simp add: Schema_wellformed_def users_table_def)

section \<open>Reconciling a schema with itself\<close>

text \<open>
  Claim C1. When the desired schema and the schema read from the database are the same
  (same name, fields, indexes, engine, collation and comment) and keep the invariants of
  the data model, \<open>Update\<close> sends no statement at all and returns nil, whatever the
  database and whatever \<open>escape\<close>.
\<close>

theorem Update_identical_is_noop:
  assumes "Schema_wellformed sc"
    and "ReadFromDB db (Schema_Name sc) = Inr (Some sc)"
  shows "Schema_Update db escape sc = ([], None)"
proof -
  have "Diff escape sc sc = []"
    using assms(1)
    by (simp add: Diff_def Diff_attrs_same Diff_drop_fields_same Diff_fields_same
          Diff_drop_indexs_same Diff_indexs_same)
  then show ?thesis
    by (simp add: Schema_Update_exec [OF assms(2)])
qed

theorem Update_identical_is_noop_witness:
  "Schema_wellformed users_table
   \<and> ReadFromDB users_db (Schema_Name users_table) = Inr (Some users_table)
   \<and> Schema_Update users_db escape_sample users_table = ([], None)"
proof -
  have n: "Schema_Name users_table = ''users''" by (simp add: users_table_def)
  have r: "ReadFromDB users_db (Schema_Name users_table) = Inr (Some users_table)"
    unfolding n by (rule ReadFromDB_users_db)
  from Update_identical_is_noop [OF users_table_wellformed r, of escape_sample]
    users_table_wellformed r
  show ?thesis by blast
qed

section \<open>The order of the statements\<close>

lemma ReadFromDB_legacy_users_db:
  "ReadFromDB legacy_users_db ''users'' = Inr (Some legacy_users)"
  by (simp add: ReadFromDB_def legacy_users_db_def db_with_table_def legacy_users_def)

lemma db_with_table_accepts_all: "accepts_all (db_with_table name info columns statistics)"
  by (simp add: accepts_all_def db_with_table_def)

lemma Diff_users_migration:
  "Diff_attrs escape_sample users_table legacy_users @ Diff_drop_fields users_table legacy_users
     @ Diff_fields escape_sample users_table legacy_users
     @ Diff_drop_indexs users_table legacy_users @ Diff_indexs users_table legacy_users =
   users_migration"
proof -
  have 1: "Diff_attrs escape_sample users_table legacy_users =
      [''ALTER TABLE `users` ENGINE = InnoDB'']"
    by (simp add: Diff_attrs_def users_table_def legacy_users_def quoted_def)
  have 2: "Diff_drop_fields users_table legacy_users = [''ALTER TABLE `users` DROP `titleX`'']"
    by (simp add: Diff_drop_fields_def users_table_def legacy_users_def quoted_def)
  have 3: "Diff_fields escape_sample users_table legacy_users =
      [''ALTER TABLE `users` ADD `name` varchar(64) NULL COMMENT '' @ apostrophe
        @ ''the user'' @ [CHR 0x5C, CHR 0x27] @ ''s name'' @ apostrophe]"
    by (simp add: Diff_fields_def Diff_field_def Schema_Field_def Field_Equal_def
          users_table_def legacy_users_def quoted_def column_clause_def column_tail_def
          escape_sample_def apostrophe_def)
  have 4: "Diff_drop_indexs users_table legacy_users =
      [''ALTER TABLE `users` DROP INDEX `old_idx`'']"
    by (simp add: Diff_drop_indexs_def Index_present_def users_table_def legacy_users_def
          quoted_def)
  have 5: "Diff_indexs users_table legacy_users =
      [''ALTER TABLE `users` ADD UNIQUE KEY `idx_name` (`name`)'']"
    by (simp add: Diff_indexs_def Diff_index_def Schema_Index_def Index_Equal_def
          users_table_def legacy_users_def quoted_def index_clause_def index_head_def)
  show ?thesis unfolding 1 2 3 4 5 users_migration_def by simp
qed



section \<open>Field equality and the default NULL\<close>

text \<open>
  Claim C3. \<open>Field.Equal\<close> holds exactly when name, type, nullable, autoIncrement and
  comment are identical and the default values are equal once the text \<open>NULL\<close> is read
  as no default on both sides. So for a field of the desired schema whose counterpart in
  the actual schema differs from it in this way only, the change list has no statement,
  and the pass of the loop of \<open>Update\<close> over that field sends none.
\<close>

theorem Field_Equal_normalizes_NULL_default:
  "(Field_Equal fd other \<longleftrightarrow>
      Field_Name fd = Field_Name other \<and> Field_Type fd = Field_Type other
      \<and> Field_Nullable fd = Field_Nullable other
      \<and> Field_AutoIncrement fd = Field_AutoIncrement other
      \<and> Field_Comment fd = Field_Comment other
      \<and> normalized_default (Field_DefaultValue fd) =
          normalized_default (Field_DefaultValue other))
   \<and> (Schema_Field cur (Field_Name other) = Some fd
        \<and> Field_Name fd = Field_Name other \<and> Field_Type fd = Field_Type other
        \<and> Field_Nullable fd = Field_Nullable other
        \<and> Field_AutoIncrement fd = Field_AutoIncrement other
        \<and> Field_Comment fd = Field_Comment other
        \<and> normalized_default (Field_DefaultValue fd) =
            normalized_default (Field_DefaultValue other)
       \<longrightarrow> Diff_field escape sc cur other = []
           \<and> Update_fields db escape sc cur log (other # rest) =
               Update_fields db escape sc cur log rest)"
proof -
  have eq: "Field_Equal fd other \<longleftrightarrow>
      Field_Name fd = Field_Name other \<and> Field_Type fd = Field_Type other
      \<and> Field_Nullable fd = Field_Nullable other
      \<and> Field_AutoIncrement fd = Field_AutoIncrement other
      \<and> Field_Comment fd = Field_Comment other
      \<and> normalized_default (Field_DefaultValue fd) =
          normalized_default (Field_DefaultValue other)"
    unfolding Field_Equal_iff normalized_default_def by blast
  have quiet: "Diff_field escape sc cur other = []
           \<and> Update_fields db escape sc cur log (other # rest) =
               Update_fields db escape sc cur log rest"
    if "Schema_Field cur (Field_Name other) = Some fd" and "Field_Equal fd other"
    using that by (simp add: Diff_field_def Field_change_sql_def)
  from eq quiet show ?thesis by blast
qed

theorem Field_Equal_normalizes_NULL_default_witness:
  "Field_Equal age_read age_declared
   \<and> Schema_Field (ages age_read) (Field_Name age_declared) = Some age_read
   \<and> Diff_field escape_sample (ages age_declared) (ages age_read) age_declared = []
   \<and> Update_fields db_without_tables escape_sample (ages age_declared) (ages age_read) []
        [age_declared] = ([], None)"
proof -
  have l: "Schema_Field (ages age_read) (Field_Name age_declared) = Some age_read"
    by (simp add: Schema_Field_def ages_def age_read_def age_declared_def)
  have s: "Field_Name age_read = Field_Name age_declared
      \<and> Field_Type age_read = Field_Type age_declared
      \<and> Field_Nullable age_read = Field_Nullable age_declared
      \<and> Field_AutoIncrement age_read = Field_AutoIncrement age_declared
      \<and> Field_Comment age_read = Field_Comment age_declared
      \<and> normalized_default (Field_DefaultValue age_read) =
          normalized_default (Field_DefaultValue age_declared)"
    by (simp add: age_read_def age_declared_def normalized_default_def)
  note t = Field_Equal_normalizes_NULL_default
    [of age_read age_declared "ages age_read" escape_sample "ages age_declared"
        db_without_tables "[]" "[]"]
  from t s have e: "Field_Equal age_read age_declared" by blast
  from t s l have d: "Diff_field escape_sample (ages age_declared) (ages age_read) age_declared = []
     \<and> Update_fields db_without_tables escape_sample (ages age_declared) (ages age_read) []
        [age_declared] = Update_fields db_without_tables escape_sample (ages age_declared) (ages age_read) [] []"
    by blast
  from e l d show ?thesis by simp
qed

section \<open>Index equality and the order of the columns\<close>

lemma Index_loop_map:
  assumes "\<And>i. Index_Name (g i) = Index_Name i" and "\<And>i. Index_Primary (g i) = Index_Primary i"
  shows "Index_loop (map g xs) name = map_option g (Index_loop xs name)"
  by (induction xs) (simp_all add: assms)

lemma concat_map_single:
  assumes "distinct xs" and "x \<in> set xs"
  shows "concat (map (\<lambda>i. if i = x then [r] else []) xs) = [r]"
  using assms
proof (induction xs)
  case Nil
  then show ?case by simp
next
  case (Cons y ys)
  show ?case
  proof (cases "y = x")
    case True
    with Cons.prems(1) have "x \<notin> set ys" by simp
    then have "concat (map (\<lambda>i. if i = x then [r] else []) ys) = []"
      by (intro concat_map_Nil) auto
    with True show ?thesis by simp
  next
    case False
    with Cons.prems have "distinct ys" "x \<in> set ys" by auto
    with Cons.IH False show ?thesis by simp
  qed
qed

lemma index_clause_two:
  "Index_Columns index = [a, b] \<Longrightarrow>
     index_clause index = index_head index @ quoted a @ '','' @ quoted b @ '')''"
  by (simp add: index_clause_def butlast_append quoted_def)

lemma Diff_reordered_index:
  assumes wf: "Schema_wellformed sc"
    and mem: "index \<in> set (Schema_Indices sc)"
    and cols: "Index_Columns index = [a, b]"
    and ne: "a \<noteq> b"
    and cur: "cur = sc\<lparr>Schema_Indices :=
                map (\<lambda>i. if i = index then i\<lparr>Index_Columns := [b, a]\<rparr> else i)
                  (Schema_Indices sc)\<rparr>"
  shows "Diff escape sc cur =
    [''ALTER TABLE '' @ quoted (Schema_Name sc) @ '' DROP ''
       @ (if Index_Primary index then ''PRIMARY KEY''
          else ''INDEX '' @ quoted (Index_Name index))
       @ '', ADD '' @ index_head index @ quoted a @ '','' @ quoted b @ '')'']"
proof -
  let ?g = "\<lambda>i. if i = index then i\<lparr>Index_Columns := [b, a]\<rparr> else i"
  let ?R = "''ALTER TABLE '' @ quoted (Schema_Name sc) @ '' DROP ''
       @ (if Index_Primary index then ''PRIMARY KEY''
          else ''INDEX '' @ quoted (Index_Name index))
       @ '', ADD '' @ index_clause index"
  have gn: "Index_Name (?g i) = Index_Name i" for i by simp
  have gp: "Index_Primary (?g i) = Index_Primary i" for i by simp
  have fields: "Schema_Fields cur = Schema_Fields sc" by (simp add: cur)
  have indices: "Schema_Indices cur = map ?g (Schema_Indices sc)" by (simp add: cur)
  have 1: "Diff_attrs escape sc cur = []" by (simp add: Diff_attrs_def cur)
  have 2: "Diff_drop_fields sc cur = []" by (simp add: Diff_drop_fields_def fields)
  have "Diff_field escape sc cur = Diff_field escape sc sc"
    by (rule ext) (simp add: Diff_field_def Schema_Field_def fields)
  then have "Diff_fields escape sc cur = Diff_fields escape sc sc"
    by (simp only: Diff_fields_def)
  with wf have 3: "Diff_fields escape sc cur = []" by (simp add: Diff_fields_same)
  have present: "Index_present sc (Index_Name (?g i))" if "i \<in> set (Schema_Indices sc)" for i
    using Schema_Index_wellformed [OF wf that] Schema_Index_None_iff [of sc "Index_Name i"]
    unfolding gn by simp
  have "filter (\<lambda>j. \<not> Index_present sc (Index_Name j)) (map ?g (Schema_Indices sc)) = []"
    unfolding filter_empty_conv
  proof (intro ballI)
    fix j assume "j \<in> set (map ?g (Schema_Indices sc))"
    then have "j \<in> ?g ` set (Schema_Indices sc)" by (simp only: set_map)
    then obtain i where "i \<in> set (Schema_Indices sc)" and "j = ?g i" by (rule imageE)
    with present [of i] show "\<not> \<not> Index_present sc (Index_Name j)" by simp
  qed
  then have 4: "Diff_drop_indexs sc cur = []"
    by (simp only: Diff_drop_indexs_def indices list.map)
  have look: "Schema_Index cur (Index_Name i) = Some (?g i)"
    if "i \<in> set (Schema_Indices sc)" for i
  proof -
    have "Schema_Index cur (Index_Name i) = map_option ?g (Schema_Index sc (Index_Name i))"
      unfolding Schema_Index_def Let_def indices by (rule Index_loop_map [OF gn gp])
    then show ?thesis by (simp only: Schema_Index_wellformed [OF wf that] option.map)
  qed
  have differs: "\<not> Index_Equal (index\<lparr>Index_Columns := [b, a]\<rparr>) index"
    using ne by (simp add: Index_Equal_iff cols)
  have each: "Diff_index sc cur i = (if i = index then [?R] else [])"
    if "i \<in> set (Schema_Indices sc)" for i
  proof (cases "i = index")
    case True
    with look [OF that] differs show ?thesis by (simp add: Diff_index_def)
  next
    case False
    with look [OF that] show ?thesis by (simp add: Diff_index_def Index_Equal_refl)
  qed
  have "distinct (Schema_Indices sc)"
    using wf by (simp add: Schema_wellformed_def distinct_map)
  then have "concat (map (\<lambda>i. if i = index then [?R] else []) (Schema_Indices sc)) = [?R]"
    using mem by (rule concat_map_single)
  moreover have "map (Diff_index sc cur) (Schema_Indices sc) =
      map (\<lambda>i. if i = index then [?R] else []) (Schema_Indices sc)"
    using each by (intro map_cong refl)
  ultimately have 5: "Diff_indexs sc cur = [?R]" by (simp only: Diff_indexs_def)
  show ?thesis
    unfolding Diff_def 1 2 3 4 5 index_clause_two [OF cols] by simp
qed

lemma pairs_table_wellformed: "Schema_wellformed pairs_table"
  by (simp add: Schema_wellformed_def pairs_table_def)

lemma ReadFromDB_pairs_db:
  "ReadFromDB pairs_db ''pairs'' =
     Inr (Some (pairs_table\<lparr>Schema_Indices :=
       map (\<lambda>i. if i = \<lparr>Index_Name = ''idx_ab'', Index_Columns = [''a'', ''b''],
                          Index_Primary = False, Index_Unique = False\<rparr>
                 then i\<lparr>Index_Columns := [''b'', ''a'']\<rparr> else i)
         (Schema_Indices pairs_table)\<rparr>))"
  by (simp add: ReadFromDB_def pairs_db_def db_with_table_def pairs_table_def)

text \<open>
  Claim C4. \<open>Index.Equal\<close> holds exactly when the primary flags match, the names match
  unless the index is primary, the unique flags match, and the column lists are the same
  in length and order. An index on \<open>a\<close>, \<open>b\<close> is therefore not equal to the same
  index on \<open>b\<close>, \<open>a\<close>, and when the desired and the actual schema differ in that
  reordering only (and keep the invariants of the data model), \<open>Update\<close> sends exactly
  one statement, which drops the index and adds it again with the desired columns.
\<close>

theorem Index_Equal_column_order:
  "(Index_Equal idx other \<longleftrightarrow>
      Index_Primary idx = Index_Primary other
      \<and> (\<not> Index_Primary idx \<longrightarrow> Index_Name idx = Index_Name other)
      \<and> Index_Unique idx = Index_Unique other
      \<and> Index_Columns idx = Index_Columns other)
   \<and> (a \<noteq> b \<longrightarrow>
        \<not> Index_Equal (index\<lparr>Index_Columns := [b, a]\<rparr>) (index\<lparr>Index_Columns := [a, b]\<rparr>))
   \<and> (Schema_wellformed sc \<and> index \<in> set (Schema_Indices sc)
        \<and> Index_Columns index = [a, b] \<and> a \<noteq> b
        \<and> ReadFromDB db (Schema_Name sc) =
            Inr (Some (sc\<lparr>Schema_Indices :=
                  map (\<lambda>i. if i = index then i\<lparr>Index_Columns := [b, a]\<rparr> else i)
                    (Schema_Indices sc)\<rparr>))
       \<longrightarrow> fst (Schema_Update db escape sc) =
             [''ALTER TABLE '' @ quoted (Schema_Name sc) @ '' DROP ''
               @ (if Index_Primary index then ''PRIMARY KEY''
                  else ''INDEX '' @ quoted (Index_Name index))
               @ '', ADD '' @ index_head index @ quoted a @ '','' @ quoted b @ '')''])"
proof -
  have eq: "Index_Equal idx other \<longleftrightarrow>
      Index_Primary idx = Index_Primary other
      \<and> (\<not> Index_Primary idx \<longrightarrow> Index_Name idx = Index_Name other)
      \<and> Index_Unique idx = Index_Unique other
      \<and> Index_Columns idx = Index_Columns other"
    unfolding Index_Equal_iff by blast
  have order: "a \<noteq> b \<longrightarrow>
        \<not> Index_Equal (index\<lparr>Index_Columns := [b, a]\<rparr>) (index\<lparr>Index_Columns := [a, b]\<rparr>)"
    by (simp add: Index_Equal_iff)
  have run: "fst (Schema_Update db escape sc) =
             [''ALTER TABLE '' @ quoted (Schema_Name sc) @ '' DROP ''
               @ (if Index_Primary index then ''PRIMARY KEY''
                  else ''INDEX '' @ quoted (Index_Name index))
               @ '', ADD '' @ index_head index @ quoted a @ '','' @ quoted b @ '')'']"
    if wf: "Schema_wellformed sc" and mem: "index \<in> set (Schema_Indices sc)"
      and cols: "Index_Columns index = [a, b]" and ne: "a \<noteq> b"
      and read: "ReadFromDB db (Schema_Name sc) =
            Inr (Some (sc\<lparr>Schema_Indices :=
                  map (\<lambda>i. if i = index then i\<lparr>Index_Columns := [b, a]\<rparr> else i)
                    (Schema_Indices sc)\<rparr>))"
    unfolding Schema_Update_exec [OF read] Diff_reordered_index [OF wf mem cols ne refl]
    by (simp split: option.splits)
  from eq order run show ?thesis by blast
qed

theorem Index_Equal_column_order_witness:
  "fst (Schema_Update pairs_db escape_sample pairs_table) =
     [''ALTER TABLE `pairs` DROP INDEX `idx_ab`, ADD KEY `idx_ab` (`a`,`b`)'']"
proof -
  let ?i = "\<lparr>Index_Name = ''idx_ab'', Index_Columns = [''a'', ''b''],
             Index_Primary = False, Index_Unique = False\<rparr>"
  have n: "Schema_Name pairs_table = ''pairs''" by (simp add: pairs_table_def)
  have mem: "?i \<in> set (Schema_Indices pairs_table)" by (simp add: pairs_table_def)
  have cols: "Index_Columns ?i = [''a'', ''b'']" by simp
  have ne: "''a'' \<noteq> ''b''" by simp
  have read: "ReadFromDB pairs_db (Schema_Name pairs_table) =
     Inr (Some (pairs_table\<lparr>Schema_Indices :=
       map (\<lambda>i. if i = ?i then i\<lparr>Index_Columns := [''b'', ''a'']\<rparr> else i)
         (Schema_Indices pairs_table)\<rparr>))"
    unfolding n by (rule ReadFromDB_pairs_db)
  from Index_Equal_column_order
    [of _ _ "''a''" "''b''" ?i pairs_table pairs_db escape_sample]
    pairs_table_wellformed mem cols ne read
  have "fst (Schema_Update pairs_db escape_sample pairs_table) =
     [''ALTER TABLE '' @ quoted (Schema_Name pairs_table) @ '' DROP ''
               @ (if Index_Primary ?i then ''PRIMARY KEY''
                  else ''INDEX '' @ quoted (Index_Name ?i))
               @ '', ADD '' @ index_head ?i @ quoted ''a'' @ '','' @ quoted ''b'' @ '')'']"
    by blast
  then show ?thesis by (simp add: n quoted_def index_head_def)
qed

section \<open>The primary index of a schema read from the database\<close>

text \<open>
  What \<open>ReadFromDB\<close> returns marks an index primary exactly when its name is
  \<open>PRIMARY\<close>.
\<close>

lemma ReadFromDB_columns_Indices:
  "ReadFromDB_columns sc rows = Inr sc' \<Longrightarrow> Schema_Indices sc' = Schema_Indices sc"
proof (induction rows arbitrary: sc)
  case Nil
  then show ?case by simp
next
  case (Cons row rows)
  show ?case
  proof (cases row)
    case (Inl e)
    with Cons.prems show ?thesis by simp
  next
    case (Inr r)
    obtain name type isNullable defaultValue comment extra
      where r: "r = (name, type, isNullable, defaultValue, comment, extra)"
      by (cases r) auto
    from Cons.prems obtain field where
      "ReadFromDB_columns (sc\<lparr>Schema_Fields := Schema_Fields sc @ [field]\<rparr>) rows = Inr sc'"
      unfolding Inr r by (simp add: Let_def)
    from Cons.IH [OF this] show ?thesis by simp
  qed
qed

lemma ReadFromDB_indexs_primary:
  assumes "ReadFromDB_indexs idxMap sc rows = Inr sc'"
    and "\<forall>i \<in> set (Schema_Indices sc). Index_Primary i \<longleftrightarrow> Index_Name i = ''PRIMARY''"
  shows "\<forall>i \<in> set (Schema_Indices sc'). Index_Primary i \<longleftrightarrow> Index_Name i = ''PRIMARY''"
  using assms
proof (induction rows arbitrary: idxMap sc)
  case Nil
  then show ?case by simp
next
  case (Cons row rows)
  let ?inv = "\<lambda>xs. \<forall>i \<in> set xs. Index_Primary i \<longleftrightarrow> Index_Name i = ''PRIMARY''"
  show ?case
  proof (cases row)
    case (Inl e)
    with Cons.prems show ?thesis by simp
  next
    case (Inr r)
    obtain idxName seq idxColumn nonUnique
      where r: "r = (idxName, seq, idxColumn, nonUnique)"
      by (cases r) auto
    show ?thesis
    proof (cases "idxMap idxName")
      case None
      let ?index = "if idxName = ''PRIMARY''
                    then \<lparr>Index_Name = idxName, Index_Columns = [idxColumn],
                          Index_Primary = True, Index_Unique = False\<rparr>
                    else if nonUnique = 0
                    then \<lparr>Index_Name = idxName, Index_Columns = [idxColumn],
                          Index_Primary = False, Index_Unique = True\<rparr>
                    else \<lparr>Index_Name = idxName, Index_Columns = [idxColumn],
                          Index_Primary = False, Index_Unique = False\<rparr>"
      from Cons.prems(1) have step:
        "ReadFromDB_indexs (idxMap(idxName \<mapsto> length (Schema_Indices sc)))
           (sc\<lparr>Schema_Indices := Schema_Indices sc @ [?index]\<rparr>) rows = Inr sc'"
        unfolding Inr r by (simp add: None Let_def split: if_splits)
      have "?inv (Schema_Indices (sc\<lparr>Schema_Indices := Schema_Indices sc @ [?index]\<rparr>))"
        using Cons.prems(2) by simp
      from Cons.IH [OF step this] show ?thesis .
    next
      case (Some n)
      show ?thesis
      proof (cases "n < length (Schema_Indices sc)")
        case False
        with Cons.prems(1) show ?thesis unfolding Inr r by (simp add: Some)
      next
        case True
        let ?new = "(Schema_Indices sc ! n)
              \<lparr>Index_Columns := Index_Columns (Schema_Indices sc ! n) @ [idxColumn]\<rparr>"
        from Cons.prems(1) True have step:
          "ReadFromDB_indexs idxMap
             (sc\<lparr>Schema_Indices := (Schema_Indices sc)[n := ?new]\<rparr>) rows = Inr sc'"
          unfolding Inr r by (simp add: Some)
        have old: "Index_Primary (Schema_Indices sc ! n) \<longleftrightarrow>
            Index_Name (Schema_Indices sc ! n) = ''PRIMARY''"
          using Cons.prems(2) True by simp
        have "?inv ((Schema_Indices sc)[n := ?new])"
        proof (intro ballI)
          fix i assume "i \<in> set ((Schema_Indices sc)[n := ?new])"
          then have "i = ?new \<or> i \<in> set (Schema_Indices sc)"
            using set_update_subset_insert [of "Schema_Indices sc" n ?new] by auto
          then show "Index_Primary i \<longleftrightarrow> Index_Name i = ''PRIMARY''"
            using old Cons.prems(2) by auto
        qed
        then have "?inv (Schema_Indices (sc\<lparr>Schema_Indices := (Schema_Indices sc)[n := ?new]\<rparr>))"
          by simp
        from Cons.IH [OF step this] show ?thesis .
      qed
    qed
  qed
qed

lemma ReadFromDB_primary_name:
  assumes "ReadFromDB db name = Inr (Some cur)"
    and "index \<in> set (Schema_Indices cur)"
  shows "Index_Primary index \<longleftrightarrow> Index_Name index = ''PRIMARY''"
proof -
  from assms(1) obtain dbName info rows sc1 rows' where
    cols: "ReadFromDB_columns
            (\<lparr>Schema_Name = name, Schema_Fields = [], Schema_Indices = [],
              Schema_Engine = '''', Schema_Collate = '''', Schema_Comment = ''''\<rparr>
             \<lparr>Schema_Engine := fst info, Schema_Collate := fst (snd info),
              Schema_Comment := snd (snd info)\<rparr>) rows = Inr sc1"
    and idx: "ReadFromDB_indexs Map.empty sc1 rows' = Inr cur"
    by (auto simp: ReadFromDB_def Let_def split: sum.splits if_splits prod.splits)
  from ReadFromDB_columns_Indices [OF cols] have "Schema_Indices sc1 = []" by simp
  then have "\<forall>i \<in> set (Schema_Indices sc1). Index_Primary i \<longleftrightarrow> Index_Name i = ''PRIMARY''"
    by simp
  from ReadFromDB_indexs_primary [OF idx this] assms(2) show ?thesis by blast
qed

lemma Diff_drop_indexs_member:
  assumes "index \<in> set (Schema_Indices cur)"
    and "Schema_Index sc (Index_Name index) = None"
  shows "''ALTER TABLE '' @ quoted (Schema_Name sc) @ '' DROP INDEX ''
           @ quoted (Index_Name index) \<in> set (Diff_drop_indexs sc cur)"
proof -
  from assms(2) have "\<not> Index_present sc (Index_Name index)"
    by (simp add: Schema_Index_None_iff)
  with assms(1) have "index \<in> set (filter (\<lambda>i. \<not> Index_present sc (Index_Name i))
      (Schema_Indices cur))" by simp
  then show ?thesis unfolding Diff_drop_indexs_def set_map by (rule imageI)
qed

lemma ReadFromDB_users_db_without_key:
  "ReadFromDB users_db (Schema_Name users_without_key) = Inr (Some users_table)"
  using ReadFromDB_users_db by (simp add: users_without_key_def users_table_def)

lemma Diff_users_without_key:
  "Diff escape_sample users_without_key users_table = [''ALTER TABLE `users` DROP INDEX `PRIMARY`'']"
proof -
  have 1: "Diff_attrs escape_sample users_without_key users_table = []"
    by (simp add: Diff_attrs_def users_without_key_def)
  have 2: "Diff_drop_fields users_without_key users_table = []"
    by (simp add: Diff_drop_fields_def users_without_key_def)
  have 3: "Diff_fields escape_sample users_without_key users_table = []"
    by (simp add: Diff_fields_def Diff_field_def Schema_Field_def Field_Equal_def
          users_without_key_def users_table_def)
  have 4: "Diff_drop_indexs users_without_key users_table =
      [''ALTER TABLE `users` DROP INDEX `PRIMARY`'']"
    by (simp add: Diff_drop_indexs_def Index_present_def users_without_key_def users_table_def
          quoted_def)
  have 5: "Diff_indexs users_without_key users_table = []"
    by (simp add: Diff_indexs_def Diff_index_def Schema_Index_def Index_Equal_def
          users_without_key_def users_table_def)
  show ?thesis unfolding Diff_def 1 2 3 4 5 by simp
qed

lemma users_db_accepts_all: "accepts_all users_db"
  unfolding users_db_def by (rule db_with_table_accepts_all)

section \<open>The order of the clauses of CREATE TABLE\<close>

lemma butlast_commas:
  "xs \<noteq> [] \<Longrightarrow> butlast (concat (map (\<lambda>x. x @ '','') xs)) = joined xs"
proof (induction xs rule: joined.induct)
  case 1
  then show ?case by simp
next
  case (2 x)
  then show ?case by simp
next
  case (3 x y rest)
  then have "butlast (concat (map (\<lambda>x. x @ '','') (y # rest))) = joined (y # rest)" by simp
  moreover have "concat (map (\<lambda>x. x @ '','') (y # rest)) \<noteq> []" by simp
  ultimately show ?case by (simp add: butlast_append)
qed

lemma Create_statement_joined:
  assumes "Schema_Fields sc \<noteq> [] \<or> Schema_Indices sc \<noteq> []"
  shows "Create_statement escape sc =
     ''CREATE TABLE IF NOT EXISTS '' @ quoted (Schema_Name sc) @ '' (''
     @ joined (map (column_clause escape) (Schema_Fields sc)
               @ map index_clause (Schema_Indices sc))
     @ '')'' @ table_attrs escape sc"
proof -
  let ?xs = "map (column_clause escape) (Schema_Fields sc) @ map index_clause (Schema_Indices sc)"
  have c: "concat (map (\<lambda>field. column_clause escape field @ '','') (Schema_Fields sc))
          @ concat (map (\<lambda>index. index_clause index @ '','') (Schema_Indices sc)) =
        concat (map (\<lambda>x. x @ '','') ?xs)"
    by (simp add: comp_def)
  from assms have ne: "?xs \<noteq> []" by simp
  then have ne': "concat (map (\<lambda>x. x @ '','') ?xs) \<noteq> []"
    by (cases ?xs) simp_all
  have "butlast (''('' @ concat (map (\<lambda>x. x @ '','') ?xs)) = ''('' @ joined ?xs"
    using butlast_commas [OF ne] ne' by (simp add: butlast_append)
  then show ?thesis
    unfolding Create_statement_def c by simp
qed

text \<open>
  Claim C6, as the code has it. For every schema \<open>Create\<close> builds one statement and
  sends it: \<open>CREATE TABLE IF NOT EXISTS\<close> and the quoted name, the column clauses in
  field order, then the index clauses in index order, so that the primary key clause is
  first among them only when the primary index is the first index, then the table
  attributes after the closing parenthesis. When the schema has a field or an index the
  clauses are joined by commas between the parentheses.
\<close>

theorem Create_renders_in_list_order:
  "Create_sql escape sc = Inr (Create_statement escape sc)
   \<and> Schema_Create db escape sc log =
       (log @ [Create_statement escape sc], DB_exec db log (Create_statement escape sc))
   \<and> (Schema_Fields sc \<noteq> [] \<or> Schema_Indices sc \<noteq> [] \<longrightarrow>
        Create_statement escape sc =
          ''CREATE TABLE IF NOT EXISTS '' @ quoted (Schema_Name sc) @ '' (''
          @ joined (map (column_clause escape) (Schema_Fields sc)
                    @ map index_clause (Schema_Indices sc))
          @ '')'' @ table_attrs escape sc)"
proof -
  have s: "Create_sql escape sc = Inr (Create_statement escape sc)"
    unfolding Create_sql_closed Create_statement_def by (simp add: quoted_def)
  have c: "Schema_Create db escape sc log =
       (log @ [Create_statement escape sc], DB_exec db log (Create_statement escape sc))"
    unfolding Schema_Create_def s by (simp add: ExecContext_def)
  from s c Create_statement_joined [of sc escape] show ?thesis by blast
qed

theorem Create_renders_in_list_order_witness:
  "Schema_Fields users_table \<noteq> []
   \<and> Create_sql escape_sample users_table = Inr users_create_statement
   \<and> Schema_Create db_without_tables escape_sample users_table [] =
       ([users_create_statement], None)"
proof -
  have h: "Schema_Fields users_table \<noteq> []"
    by (simp add: users_table_def)
  note t = Create_renders_in_list_order [of escape_sample users_table db_without_tables "[]"]
  from t h have "Create_statement escape_sample users_table =
          ''CREATE TABLE IF NOT EXISTS '' @ quoted (Schema_Name users_table) @ '' (''
          @ joined (map (column_clause escape_sample) (Schema_Fields users_table)
                    @ map index_clause (Schema_Indices users_table))
          @ '')'' @ table_attrs escape_sample users_table"
    by blast
  also have "\<dots> = users_create_statement"
    by (simp add: users_table_def column_clause_def column_tail_def index_clause_def
          index_head_def quoted_def table_attrs_def escape_sample_def apostrophe_def
          users_create_statement_def)
  finally have e: "Create_statement escape_sample users_table = users_create_statement" .
  from t have "Create_sql escape_sample users_table = Inr users_create_statement"
    unfolding e by blast
  moreover from t have "Schema_Create db_without_tables escape_sample users_table [] =
       ([users_create_statement], None)"
    unfolding e by (simp add: db_without_tables_def)
  ultimately show ?thesis using h by blast
qed

text \<open>
  Claim C6, as stated, fails: with the primary index listed second, the primary key clause
  is rendered second, after the clause of the unique index.
\<close>

theorem Create_primary_key_first_counterexample:
  "Index_Primary (Schema_Indices users_key_last ! 1)
   \<and> Schema_Create db_without_tables escape_sample users_key_last [] =
       ([users_key_last_statement], None)"
proof -
  have p: "Index_Primary (Schema_Indices users_key_last ! 1)"
    by (simp add: users_key_last_def)
  have "Create_sql escape_sample users_key_last = Inr users_key_last_statement"
    by (simp add: Create_sql_closed users_key_last_def users_table_def column_clause_def
          column_tail_def index_clause_def index_head_def quoted_def table_attrs_def
          escape_sample_def apostrophe_def users_key_last_statement_def)
  then have "Schema_Create db_without_tables escape_sample users_key_last [] =
       ([users_key_last_statement], None)"
    by (simp add: Schema_Create_def ExecContext_def db_without_tables_def)
  with p show ?thesis by blast
qed

section \<open>The column list of an index clause\<close>

lemma index_clause_joined:
  assumes "Index_Columns index \<noteq> []"
  shows "index_clause index =
     index_head index @ joined (map quoted (Index_Columns index)) @ '')''"
proof -
  let ?xs = "map quoted (Index_Columns index)"
  have c: "concat (map (\<lambda>c. quoted c @ '','') (Index_Columns index)) =
      concat (map (\<lambda>x. x @ '','') ?xs)"
    by (simp add: comp_def)
  from assms have ne: "?xs \<noteq> []" by simp
  then have ne': "concat (map (\<lambda>x. x @ '','') ?xs) \<noteq> []"
    by (cases ?xs) simp_all
  have "butlast (index_head index @ concat (map (\<lambda>x. x @ '','') ?xs)) =
      index_head index @ joined ?xs"
    using butlast_commas [OF ne] ne' by (simp add: butlast_append)
  then show ?thesis unfolding index_clause_def c by simp
qed

lemma ReadFromDB_users_db_empty_index:
  "ReadFromDB users_db (Schema_Name users_empty_index) = Inr (Some users_table)"
  using ReadFromDB_users_db by (simp add: users_empty_index_def users_table_def)

lemma Diff_users_empty_index:
  "Diff escape_sample users_empty_index users_table = [''ALTER TABLE `users` ADD KEY `idx_none` )'']"
proof -
  have 1: "Diff_attrs escape_sample users_empty_index users_table = []"
    by (simp add: Diff_attrs_def users_empty_index_def)
  have 2: "Diff_drop_fields users_empty_index users_table = []"
    by (simp add: Diff_drop_fields_def users_empty_index_def)
  have 3: "Diff_fields escape_sample users_empty_index users_table = []"
    by (simp add: Diff_fields_def Diff_field_def Schema_Field_def Field_Equal_def
          users_empty_index_def users_table_def)
  have 4: "Diff_drop_indexs users_empty_index users_table = []"
    by (simp add: Diff_drop_indexs_def Index_present_def users_empty_index_def users_table_def)
  have 5: "Diff_indexs users_empty_index users_table =
      [''ALTER TABLE `users` ADD KEY `idx_none` )'']"
    by (simp add: Diff_indexs_def Diff_index_def Schema_Index_def Index_Equal_def
          users_empty_index_def users_table_def quoted_def index_clause_def index_head_def)
  show ?thesis unfolding Diff_def 1 2 3 4 5 by simp
qed

lemma legacy_users_db_accepts_all: "accepts_all legacy_users_db"
  unfolding legacy_users_db_def by (rule db_with_table_accepts_all)

section \<open>A column with a quote in its default value\<close>

lemma ReadFromDB_users_db_with_nick:
  "ReadFromDB users_db (Schema_Name users_with_nick) = Inr (Some users_table)"
  using ReadFromDB_users_db by (simp add: users_with_nick_def users_table_def)

lemma Diff_users_with_nick:
  "Diff escape_sample users_with_nick users_table =
     [''ALTER TABLE `users` ADD `nick` varchar(16) NOT NULL DEFAULT it's'']"
proof -
  have 1: "Diff_attrs escape_sample users_with_nick users_table = []"
    by (simp add: Diff_attrs_def users_with_nick_def)
  have 2: "Diff_drop_fields users_with_nick users_table = []"
    by (simp add: Diff_drop_fields_def users_with_nick_def)
  have 3: "Diff_fields escape_sample users_with_nick users_table =
      [''ALTER TABLE `users` ADD `nick` varchar(16) NOT NULL DEFAULT it's'']"
    by (simp add: Diff_fields_def Diff_field_def Schema_Field_def Field_Equal_def
          users_with_nick_def users_table_def nick_def quoted_def column_clause_def
          column_tail_def)
  have 4: "Diff_drop_indexs users_with_nick users_table = []"
    by (simp add: Diff_drop_indexs_def Index_present_def users_with_nick_def users_table_def)
  have 5: "Diff_indexs users_with_nick users_table = []"
    by (simp add: Diff_indexs_def Diff_index_def Schema_Index_def Index_Equal_def
          users_with_nick_def users_table_def)
  show ?thesis unfolding Diff_def 1 2 3 4 5 by simp
qed

section \<open>What a run of Update sends\<close>

lemma exec_all_nil:
  "snd (exec_all db log xs) = None \<Longrightarrow> fst (exec_all db log xs) = log @ xs"
  by (induction xs arbitrary: log) (auto split: option.splits)

lemma exec_all_error:
  "snd (exec_all db log xs) = Some e \<Longrightarrow>
     \<exists>l sql. fst (exec_all db log xs) = l @ [sql] \<and> DB_exec db l sql = Some e"
proof (induction xs arbitrary: log)
  case Nil
  then show ?case by simp
next
  case (Cons x xs)
  show ?case
  proof (cases "DB_exec db log x")
    case None
    with Cons.prems have "snd (exec_all db (log @ [x]) xs) = Some e" by simp
    from Cons.IH [OF this] None show ?thesis by simp
  next
    case (Some e')
    with Cons.prems have "e' = e" by simp
    with Some have "fst (exec_all db log (x # xs)) = log @ [x] \<and> DB_exec db log x = Some e"
      by simp
    then show ?thesis by blast
  qed
qed

lemma Schema_Update_sent:
  assumes "ReadFromDB db (Schema_Name sc) = Inr (Some cur)"
  shows "set (fst (Schema_Update db escape sc)) \<subseteq> set (Diff escape sc cur)"
proof -
  from exec_all_prefix [of db "[]" "Diff escape sc cur"] obtain k
    where "fst (exec_all db [] (Diff escape sc cur)) = take k (Diff escape sc cur)" by auto
  then show ?thesis
    unfolding Schema_Update_exec [OF assms] by (simp add: set_take_subset)
qed

lemma Schema_Update_nil:
  assumes "ReadFromDB db (Schema_Name sc) = Inr (Some cur)"
    and "snd (Schema_Update db escape sc) = None"
  shows "fst (Schema_Update db escape sc) = Diff escape sc cur"
  using assms(2) exec_all_nil [of db "[]" "Diff escape sc cur"]
  unfolding Schema_Update_exec [OF assms(1)] by simp

lemma Diff_attrs_member:
  "s \<in> set (Diff_attrs escape sc cur) \<longleftrightarrow>
     (Schema_Engine sc \<noteq> Schema_Engine cur \<or> Schema_Collate sc \<noteq> Schema_Collate cur
          \<or> Schema_Comment sc \<noteq> Schema_Comment cur)
        \<and> s = ''ALTER TABLE '' @ quoted (Schema_Name sc)
              @ (if Schema_Engine sc \<noteq> Schema_Engine cur
                 then '' ENGINE = '' @ Schema_Engine sc else '''')
              @ (if Schema_Collate sc \<noteq> Schema_Collate cur
                 then '' COLLATE = '' @ Schema_Collate sc else '''')
              @ (if Schema_Comment sc \<noteq> Schema_Comment cur
                 then '' COMMENT = '' @ apostrophe @ escape (Schema_Comment sc) @ apostrophe
                 else '''')"
  unfolding Diff_attrs_def by (cases "Schema_Engine sc \<noteq> Schema_Engine cur \<or> Schema_Collate sc \<noteq> Schema_Collate cur
          \<or> Schema_Comment sc \<noteq> Schema_Comment cur") simp_all

lemma Diff_drop_fields_member:
  "s \<in> set (Diff_drop_fields sc cur) \<longleftrightarrow>
     (\<exists>field \<in> set (Schema_Fields cur).
            Schema_Field sc (Field_Name field) = None
            \<and> s = ''ALTER TABLE '' @ quoted (Schema_Name sc) @ '' DROP ''
                  @ quoted (Field_Name field))"
  unfolding Diff_drop_fields_def Schema_Field_None_iff by auto

lemma Diff_field_member_iff:
  "s \<in> set (Diff_field escape sc cur field) \<longleftrightarrow>
     (Schema_Field cur (Field_Name field) = None
        \<and> s = ''ALTER TABLE '' @ quoted (Schema_Name sc) @ '' ADD ''
              @ column_clause escape field)
     \<or> ((case Schema_Field cur (Field_Name field) of
               None \<Rightarrow> False
             | Some fd \<Rightarrow> \<not> Field_Equal fd field)
        \<and> s = ''ALTER TABLE '' @ quoted (Schema_Name sc) @ '' MODIFY ''
              @ column_clause escape field)"
  unfolding Diff_field_def by (cases "Schema_Field cur (Field_Name field)") simp_all

lemma Diff_fields_member:
  "s \<in> set (Diff_fields escape sc cur) \<longleftrightarrow>
     (\<exists>field \<in> set (Schema_Fields sc).
            Schema_Field cur (Field_Name field) = None
            \<and> s = ''ALTER TABLE '' @ quoted (Schema_Name sc) @ '' ADD ''
                  @ column_clause escape field)
      \<or> (\<exists>field \<in> set (Schema_Fields sc).
            (case Schema_Field cur (Field_Name field) of
               None \<Rightarrow> False
             | Some fd \<Rightarrow> \<not> Field_Equal fd field)
            \<and> s = ''ALTER TABLE '' @ quoted (Schema_Name sc) @ '' MODIFY ''
                  @ column_clause escape field)"
proof -
  have "s \<in> set (Diff_fields escape sc cur) \<longleftrightarrow>
      (\<exists>field \<in> set (Schema_Fields sc). s \<in> set (Diff_field escape sc cur field))"
    unfolding Diff_fields_def by simp
  then show ?thesis unfolding Diff_field_member_iff by blast
qed

lemma Diff_drop_indexs_member_iff:
  "s \<in> set (Diff_drop_indexs sc cur) \<longleftrightarrow>
     (\<exists>index \<in> set (Schema_Indices cur).
            Schema_Index sc (Index_Name index) = None
            \<and> s = ''ALTER TABLE '' @ quoted (Schema_Name sc) @ '' DROP INDEX ''
                  @ quoted (Index_Name index))"
  unfolding Diff_drop_indexs_def Schema_Index_None_iff by auto

lemma Diff_index_member_iff:
  "s \<in> set (Diff_index sc cur index) \<longleftrightarrow>
     (Schema_Index cur (Index_Name index) = None
        \<and> s = ''ALTER TABLE '' @ quoted (Schema_Name sc) @ '' ADD '' @ index_clause index)
     \<or> ((case Schema_Index cur (Index_Name index) of
               None \<Rightarrow> False
             | Some idx \<Rightarrow> \<not> Index_Equal idx index)
        \<and> s = ''ALTER TABLE '' @ quoted (Schema_Name sc) @ '' DROP ''
                  @ (if Index_Primary index then ''PRIMARY KEY''
                     else ''INDEX '' @ quoted (Index_Name index))
                  @ '', ADD '' @ index_clause index)"
  unfolding Diff_index_def by (cases "Schema_Index cur (Index_Name index)") simp_all

lemma Diff_indexs_member:
  "s \<in> set (Diff_indexs sc cur) \<longleftrightarrow>
     (\<exists>index \<in> set (Schema_Indices sc).
            Schema_Index cur (Index_Name index) = None
            \<and> s = ''ALTER TABLE '' @ quoted (Schema_Name sc) @ '' ADD ''
                  @ index_clause index)
      \<or> (\<exists>index \<in> set (Schema_Indices sc).
            (case Schema_Index cur (Index_Name index) of
               None \<Rightarrow> False
             | Some idx \<Rightarrow> \<not> Index_Equal idx index)
            \<and> s = ''ALTER TABLE '' @ quoted (Schema_Name sc) @ '' DROP ''
                  @ (if Index_Primary index then ''PRIMARY KEY''
                     else ''INDEX '' @ quoted (Index_Name index))
                  @ '', ADD '' @ index_clause index)"
proof -
  have "s \<in> set (Diff_indexs sc cur) \<longleftrightarrow>
      (\<exists>index \<in> set (Schema_Indices sc). s \<in> set (Diff_index sc cur index))"
    unfolding Diff_indexs_def by simp
  then show ?thesis unfolding Diff_index_member_iff by blast
qed

lemma Diff_member_iff:
  "s \<in> set (Diff escape sc cur) \<longleftrightarrow> Alter_statement escape sc cur s"
proof -
  have "s \<in> set (Diff escape sc cur) \<longleftrightarrow>
      s \<in> set (Diff_attrs escape sc cur) \<or> s \<in> set (Diff_drop_fields sc cur)
      \<or> s \<in> set (Diff_fields escape sc cur) \<or> s \<in> set (Diff_drop_indexs sc cur)
      \<or> s \<in> set (Diff_indexs sc cur)"
    unfolding Diff_def by simp
  then show ?thesis
    unfolding Diff_attrs_member Diff_drop_fields_member Diff_fields_member
      Diff_drop_indexs_member_iff Diff_indexs_member Alter_statement_def
    by blast
qed


section \<open>The two ways a primary key is dropped\<close>

lemma prefix_after_table:
  "prefix (''ALTER TABLE '' @ quoted n @ a) (''ALTER TABLE '' @ quoted n @ x) \<longleftrightarrow> prefix a x"
  by simp

lemma drop_primary_key_statement:
  assumes form: "Alter_statement escape sc cur s"
    and pre: "prefix (''ALTER TABLE '' @ quoted (Schema_Name sc) @ '' DROP PRIMARY KEY'') s"
  shows "\<exists>index \<in> set (Schema_Indices sc).
           Index_Primary index
           \<and> (case Schema_Index cur (Index_Name index) of
                 None \<Rightarrow> False
               | Some idx \<Rightarrow> \<not> Index_Equal idx index)
           \<and> s = ''ALTER TABLE '' @ quoted (Schema_Name sc) @ '' DROP PRIMARY KEY, ADD ''
                 @ index_clause index"
  using form unfolding Alter_statement_def
proof (elim disjE conjE bexE, goal_cases)
  case 1
  with pre show ?case by (simp add: prefix_after_table)
next
  case 2
  with pre show ?case by (simp add: prefix_after_table split: if_splits)
next
  case 3
  with pre show ?case by (simp add: prefix_after_table split: if_splits)
next
  case (4 field)
  with pre show ?case by (simp add: prefix_after_table quoted_def)
next
  case (5 field)
  with pre show ?case by (simp add: prefix_after_table)
next
  case (6 field)
  with pre show ?case by (simp add: prefix_after_table)
next
  case (7 index)
  with pre show ?case by (simp add: prefix_after_table)
next
  case (8 index)
  with pre show ?case by (simp add: prefix_after_table)
next
  case (9 index)
  from pre have p: "prefix '' DROP PRIMARY KEY'' ('' DROP ''
                  @ (if Index_Primary index then ''PRIMARY KEY''
                     else ''INDEX '' @ quoted (Index_Name index))
                  @ '', ADD '' @ index_clause index)"
    unfolding 9(3) prefix_after_table .
  have prim: "Index_Primary index"
  proof (rule ccontr)
    assume "\<not> Index_Primary index"
    with p show False by simp
  qed
  with 9(3) have "s = ''ALTER TABLE '' @ quoted (Schema_Name sc)
      @ '' DROP PRIMARY KEY, ADD '' @ index_clause index" by simp
  with 9(1,2) prim show ?case by blast
qed

lemma ReadFromDB_users_db_key_wider:
  "ReadFromDB users_db (Schema_Name users_key_wider) = Inr (Some users_table)"
  using ReadFromDB_users_db by (simp add: users_key_wider_def users_table_def)

lemma Diff_users_key_wider:
  "Diff escape_sample users_key_wider users_table =
     [''ALTER TABLE `users` DROP PRIMARY KEY, ADD PRIMARY KEY (`id`,`name`)'']"
proof -
  have 1: "Diff_attrs escape_sample users_key_wider users_table = []"
    by (simp add: Diff_attrs_def users_key_wider_def)
  have 2: "Diff_drop_fields users_key_wider users_table = []"
    by (simp add: Diff_drop_fields_def users_key_wider_def)
  have 3: "Diff_fields escape_sample users_key_wider users_table = []"
    by (simp add: Diff_fields_def Diff_field_def Schema_Field_def Field_Equal_def
          users_key_wider_def users_table_def)
  have 4: "Diff_drop_indexs users_key_wider users_table = []"
    by (simp add: Diff_drop_indexs_def Index_present_def users_key_wider_def users_table_def)
  have 5: "Diff_indexs users_key_wider users_table =
      [''ALTER TABLE `users` DROP PRIMARY KEY, ADD PRIMARY KEY (`id`,`name`)'']"
    by (simp add: Diff_indexs_def Diff_index_def Schema_Index_def Index_Equal_def
          users_key_wider_def users_table_def quoted_def index_clause_def index_head_def)
  show ?thesis unfolding Diff_def 1 2 3 4 5 by simp
qed

text \<open>
  Claim C5, as the code has it. For a run of \<open>Update\<close> on a schema read from the
  database: a primary index of that schema with no counterpart in the desired schema is
  named \<open>PRIMARY\<close> and, when \<open>Update\<close> returns nil, has been dropped by that name,
  with the statement form of every other index drop,
  \<open>ALTER TABLE `t` DROP INDEX `PRIMARY`\<close>; and every statement sent that begins with
  \<open>ALTER TABLE `t` DROP PRIMARY KEY\<close> is the replace statement of a primary index of
  the desired schema whose counterpart is not equal to it,
  \<open>DROP PRIMARY KEY, ADD PRIMARY KEY (...)\<close>: the dedicated form is never a drop alone.
\<close>

theorem Update_drops_primary_key_by_name:
  assumes "ReadFromDB db (Schema_Name sc) = Inr (Some cur)"
  shows "(\<forall>index \<in> set (Schema_Indices cur).
            Index_Primary index \<and> Schema_Index sc (Index_Name index) = None
            \<and> snd (Schema_Update db escape sc) = None
          \<longrightarrow> Index_Name index = ''PRIMARY''
              \<and> ''ALTER TABLE '' @ quoted (Schema_Name sc) @ '' DROP INDEX `PRIMARY`''
                  \<in> set (fst (Schema_Update db escape sc)))
    \<and> (\<forall>s \<in> set (fst (Schema_Update db escape sc)).
          prefix (''ALTER TABLE '' @ quoted (Schema_Name sc) @ '' DROP PRIMARY KEY'') s
          \<longrightarrow> (\<exists>index \<in> set (Schema_Indices sc).
                 Index_Primary index
                 \<and> (case Schema_Index cur (Index_Name index) of
                       None \<Rightarrow> False
                     | Some idx \<Rightarrow> \<not> Index_Equal idx index)
                 \<and> s = ''ALTER TABLE '' @ quoted (Schema_Name sc)
                       @ '' DROP PRIMARY KEY, ADD '' @ index_clause index))"
proof -
  have by_name: "Index_Name index = ''PRIMARY''
      \<and> ''ALTER TABLE '' @ quoted (Schema_Name sc) @ '' DROP INDEX `PRIMARY`''
          \<in> set (fst (Schema_Update db escape sc))"
    if mem: "index \<in> set (Schema_Indices cur)" and prim: "Index_Primary index"
      and absent: "Schema_Index sc (Index_Name index) = None"
      and nil: "snd (Schema_Update db escape sc) = None" for index
  proof -
    from ReadFromDB_primary_name [OF assms mem] prim
    have n: "Index_Name index = ''PRIMARY''" by simp
    from Diff_drop_indexs_member [OF mem absent]
    have "''ALTER TABLE '' @ quoted (Schema_Name sc) @ '' DROP INDEX '' @ quoted ''PRIMARY''
           \<in> set (Diff escape sc cur)"
      unfolding n Diff_def by simp
    then have "''ALTER TABLE '' @ quoted (Schema_Name sc) @ '' DROP INDEX `PRIMARY`''
           \<in> set (fst (Schema_Update db escape sc))"
      unfolding Schema_Update_nil [OF assms nil] by (simp add: quoted_def)
    with n show ?thesis by blast
  qed
  have only_replace: "\<exists>index \<in> set (Schema_Indices sc).
                 Index_Primary index
                 \<and> (case Schema_Index cur (Index_Name index) of
                       None \<Rightarrow> False
                     | Some idx \<Rightarrow> \<not> Index_Equal idx index)
                 \<and> s = ''ALTER TABLE '' @ quoted (Schema_Name sc)
                       @ '' DROP PRIMARY KEY, ADD '' @ index_clause index"
    if sent: "s \<in> set (fst (Schema_Update db escape sc))"
      and pre: "prefix (''ALTER TABLE '' @ quoted (Schema_Name sc) @ '' DROP PRIMARY KEY'') s"
    for s
  proof -
    from sent Schema_Update_sent [OF assms] have "s \<in> set (Diff escape sc cur)" by blast
    then have "Alter_statement escape sc cur s" by (simp only: Diff_member_iff)
    from drop_primary_key_statement [OF this pre] show ?thesis .
  qed
  from by_name only_replace show ?thesis by blast
qed

theorem Update_drops_primary_key_by_name_witness:
  "''ALTER TABLE `users` DROP INDEX `PRIMARY`''
       \<in> set (fst (Schema_Update users_db escape_sample users_without_key))
   \<and> fst (Schema_Update users_db escape_sample users_key_wider) =
       [''ALTER TABLE `users` DROP PRIMARY KEY, ADD PRIMARY KEY (`id`,`name`)'']
   \<and> (\<exists>index \<in> set (Schema_Indices users_key_wider).
         Index_Primary index
         \<and> ''ALTER TABLE `users` DROP PRIMARY KEY, ADD PRIMARY KEY (`id`,`name`)'' =
             ''ALTER TABLE '' @ quoted (Schema_Name users_key_wider)
             @ '' DROP PRIMARY KEY, ADD '' @ index_clause index)"
proof -
  let ?p = "\<lparr>Index_Name = ''PRIMARY'', Index_Columns = [''id''], Index_Primary = True,
       Index_Unique = False\<rparr>"
  let ?s = "''ALTER TABLE `users` DROP PRIMARY KEY, ADD PRIMARY KEY (`id`,`name`)''"
  have m: "?p \<in> set (Schema_Indices users_table)"
    by (simp add: users_table_def)
  have p: "Index_Primary ?p" by simp
  have a: "Schema_Index users_without_key (Index_Name ?p) = None"
    by (simp add: Schema_Index_def users_without_key_def)
  have n: "Schema_Name users_without_key = ''users''"
    by (simp add: users_without_key_def users_table_def)
  have u: "Schema_Update users_db escape_sample users_without_key =
       ([''ALTER TABLE `users` DROP INDEX `PRIMARY`''], None)"
    unfolding Schema_Update_exec [OF ReadFromDB_users_db_without_key]
      exec_all_accepts [OF users_db_accepts_all] Diff_users_without_key
    by simp
  then have nil: "snd (Schema_Update users_db escape_sample users_without_key) = None"
    by simp
  from Update_drops_primary_key_by_name
    [OF ReadFromDB_users_db_without_key, of escape_sample] m p a nil
  have "''ALTER TABLE '' @ quoted (Schema_Name users_without_key) @ '' DROP INDEX `PRIMARY`''
       \<in> set (fst (Schema_Update users_db escape_sample users_without_key))"
    by blast
  then have 1: "''ALTER TABLE `users` DROP INDEX `PRIMARY`''
       \<in> set (fst (Schema_Update users_db escape_sample users_without_key))"
    by (simp add: n quoted_def)
  have n': "Schema_Name users_key_wider = ''users''"
    by (simp add: users_key_wider_def users_table_def)
  have 2: "fst (Schema_Update users_db escape_sample users_key_wider) = [?s]"
    unfolding Schema_Update_exec [OF ReadFromDB_users_db_key_wider]
      exec_all_accepts [OF users_db_accepts_all] Diff_users_key_wider
    by simp
  then have sent: "?s \<in> set (fst (Schema_Update users_db escape_sample users_key_wider))"
    by simp
  have pre: "prefix (''ALTER TABLE '' @ quoted (Schema_Name users_key_wider)
      @ '' DROP PRIMARY KEY'') ?s"
    by (simp add: n' quoted_def)
  from Update_drops_primary_key_by_name
    [OF ReadFromDB_users_db_key_wider, of escape_sample] sent pre
  have 3: "\<exists>index \<in> set (Schema_Indices users_key_wider).
         Index_Primary index
         \<and> ?s = ''ALTER TABLE '' @ quoted (Schema_Name users_key_wider)
             @ '' DROP PRIMARY KEY, ADD '' @ index_clause index"
    by blast
  from 1 2 3 show ?thesis by blast
qed

text \<open>
  Claim C5, as stated, fails: for the table \<open>users\<close> wanted without its primary key the
  one statement sent is the drop by name, and the statement of the form
  \<open>DROP PRIMARY KEY\<close> is not sent.
\<close>

theorem Update_primary_key_drop_counterexample:
  "ReadFromDB users_db (Schema_Name users_without_key) = Inr (Some users_table)
   \<and> \<lparr>Index_Name = ''PRIMARY'', Index_Columns = [''id''], Index_Primary = True,
       Index_Unique = False\<rparr> \<in> set (Schema_Indices users_table)
   \<and> Schema_Index users_without_key ''PRIMARY'' = None
   \<and> Schema_Update users_db escape_sample users_without_key =
       ([''ALTER TABLE `users` DROP INDEX `PRIMARY`''], None)
   \<and> ''ALTER TABLE `users` DROP PRIMARY KEY''
       \<notin> set (fst (Schema_Update users_db escape_sample users_without_key))"
proof -
  have m: "\<lparr>Index_Name = ''PRIMARY'', Index_Columns = [''id''], Index_Primary = True,
       Index_Unique = False\<rparr> \<in> set (Schema_Indices users_table)"
    by (simp add: users_table_def)
  have a: "Schema_Index users_without_key ''PRIMARY'' = None"
    by (simp add: Schema_Index_def users_without_key_def)
  have u: "Schema_Update users_db escape_sample users_without_key =
       ([''ALTER TABLE `users` DROP INDEX `PRIMARY`''], None)"
    unfolding Schema_Update_exec [OF ReadFromDB_users_db_without_key]
      exec_all_accepts [OF users_db_accepts_all] Diff_users_without_key
    by simp
  have "''ALTER TABLE `users` DROP PRIMARY KEY''
       \<notin> set (fst (Schema_Update users_db escape_sample users_without_key))"
    unfolding u by simp
  with ReadFromDB_users_db_without_key m a u show ?thesis by blast
qed

section \<open>No check of the column list\<close>

lemma Create_sql_index_sublist:
  assumes "index \<in> set (Schema_Indices sc)"
  shows "\<exists>s. Create_sql escape sc = Inr s
    \<and> Schema_Create db escape sc log = (log @ [s], DB_exec db log s)
    \<and> sublist (index_clause index) s"
proof -
  from assms obtain pre post where f: "Schema_Indices sc = pre @ index # post"
    by (auto dest: split_list)
  let ?c = "concat (map (\<lambda>f. column_clause escape f @ '','') (Schema_Fields sc))"
  let ?i = "\<lambda>xs. concat (map (\<lambda>i. index_clause i @ '','') xs)"
  have "''('' @ ?c @ ?i (Schema_Indices sc) =
      (''('' @ ?c @ ?i pre @ index_clause index) @ ('','' @ ?i post)"
    unfolding f by simp
  then have "butlast (''('' @ ?c @ ?i (Schema_Indices sc)) =
      (''('' @ ?c @ ?i pre @ index_clause index) @ butlast ('','' @ ?i post)"
    by (simp only: butlast_append) simp
  then have s: "Create_sql escape sc =
      Inr ((''CREATE TABLE IF NOT EXISTS `'' @ Schema_Name sc @ ''` '' @ ''('' @ ?c @ ?i pre)
           @ index_clause index
           @ (butlast ('','' @ ?i post) @ '')'' @ table_attrs escape sc))"
    (is "_ = Inr ?s")
    unfolding Create_sql_closed by simp
  have c: "Schema_Create db escape sc log = (log @ [?s], DB_exec db log ?s)"
    unfolding Schema_Create_def s by (simp add: ExecContext_def)
  have "sublist (index_clause index) ?s" by (rule sublist_appendI)
  with s c show ?thesis by blast
qed

lemma Create_sql_total:
  "\<exists>s. Create_sql escape sc = Inr s
     \<and> Schema_Create db escape sc log = (log @ [s], DB_exec db log s)"
proof -
  let ?s = "''CREATE TABLE IF NOT EXISTS `'' @ Schema_Name sc @ ''` ''
          @ butlast (''('' @ concat (map (\<lambda>f. column_clause escape f @ '','') (Schema_Fields sc))
                         @ concat (map (\<lambda>i. index_clause i @ '','') (Schema_Indices sc)))
          @ '')'' @ table_attrs escape sc"
  have s: "Create_sql escape sc = Inr ?s" by (rule Create_sql_closed)
  have "Schema_Create db escape sc log = (log @ [?s], DB_exec db log ?s)"
    unfolding Schema_Create_def s by (simp add: ExecContext_def)
  with s show ?thesis by blast
qed

lemma ReadFromDB_strict_users_db:
  "ReadFromDB strict_users_db (Schema_Name users_empty_index) = Inr (Some users_table)"
proof -
  have "DB_database strict_users_db = DB_database users_db"
    and "DB_tables strict_users_db = DB_tables users_db"
    and "DB_columns strict_users_db = DB_columns users_db"
    and "DB_statistics strict_users_db = DB_statistics users_db"
    by (simp_all add: strict_users_db_def)
  then have "ReadFromDB strict_users_db (Schema_Name users_empty_index) =
      ReadFromDB users_db (Schema_Name users_empty_index)"
    by (simp only: ReadFromDB_def)
  with ReadFromDB_users_db_empty_index show ?thesis by simp
qed

text \<open>
  Claim C7, as the code has it. Neither \<open>Update\<close> nor \<open>Create\<close> checks the column
  list of an index, and neither fails of its own, whatever the schema, an index without
  columns included: an error \<open>Update\<close> returns after the read is the answer of the
  database to the last statement sent, \<open>Update\<close> returns nil when the database accepts
  every statement, and \<open>Create\<close> always builds its statement, sends it and returns the
  answer of the database. For an index whose column list is not empty, the add statement
  (no such index in the actual schema) and the replace statement (an index there that is
  not equal) of a run that returns nil, and the index clause in the statement of
  \<open>Create\<close>, end with the columns, each in back quotes, joined by commas, in order,
  between parentheses.
\<close>

theorem Update_index_statement_lists_columns:
  "(ReadFromDB db (Schema_Name sc) = Inr (Some cur) \<longrightarrow>
      (\<forall>e. snd (Schema_Update db escape sc) = Some e \<longrightarrow>
         (\<exists>sent sql. fst (Schema_Update db escape sc) = sent @ [sql]
            \<and> DB_exec db sent sql = Some e))
      \<and> (accepts_all db \<longrightarrow> snd (Schema_Update db escape sc) = None)
      \<and> (\<forall>index \<in> set (Schema_Indices sc).
            Index_Columns index \<noteq> [] \<and> snd (Schema_Update db escape sc) = None \<longrightarrow>
            (Schema_Index cur (Index_Name index) = None \<longrightarrow>
               ''ALTER TABLE '' @ quoted (Schema_Name sc) @ '' ADD '' @ index_head index
                 @ joined (map quoted (Index_Columns index)) @ '')''
               \<in> set (fst (Schema_Update db escape sc)))
            \<and> ((case Schema_Index cur (Index_Name index) of
                   None \<Rightarrow> False
                 | Some idx \<Rightarrow> \<not> Index_Equal idx index) \<longrightarrow>
               ''ALTER TABLE '' @ quoted (Schema_Name sc) @ '' DROP ''
                 @ (if Index_Primary index then ''PRIMARY KEY''
                    else ''INDEX '' @ quoted (Index_Name index))
                 @ '', ADD '' @ index_head index
                 @ joined (map quoted (Index_Columns index)) @ '')''
               \<in> set (fst (Schema_Update db escape sc)))))
   \<and> (\<exists>s. Create_sql escape sc = Inr s
         \<and> Schema_Create db escape sc log = (log @ [s], DB_exec db log s))
   \<and> (\<forall>index \<in> set (Schema_Indices sc). Index_Columns index \<noteq> [] \<longrightarrow>
         (\<exists>s. Create_sql escape sc = Inr s
            \<and> sublist (index_head index @ joined (map quoted (Index_Columns index)) @ '')'')
                 s))"
proof -
  have update: "(\<forall>e. snd (Schema_Update db escape sc) = Some e \<longrightarrow>
         (\<exists>sent sql. fst (Schema_Update db escape sc) = sent @ [sql]
            \<and> DB_exec db sent sql = Some e))
      \<and> (accepts_all db \<longrightarrow> snd (Schema_Update db escape sc) = None)
      \<and> (\<forall>index \<in> set (Schema_Indices sc).
            Index_Columns index \<noteq> [] \<and> snd (Schema_Update db escape sc) = None \<longrightarrow>
            (Schema_Index cur (Index_Name index) = None \<longrightarrow>
               ''ALTER TABLE '' @ quoted (Schema_Name sc) @ '' ADD '' @ index_head index
                 @ joined (map quoted (Index_Columns index)) @ '')''
               \<in> set (fst (Schema_Update db escape sc)))
            \<and> ((case Schema_Index cur (Index_Name index) of
                   None \<Rightarrow> False
                 | Some idx \<Rightarrow> \<not> Index_Equal idx index) \<longrightarrow>
               ''ALTER TABLE '' @ quoted (Schema_Name sc) @ '' DROP ''
                 @ (if Index_Primary index then ''PRIMARY KEY''
                    else ''INDEX '' @ quoted (Index_Name index))
                 @ '', ADD '' @ index_head index
                 @ joined (map quoted (Index_Columns index)) @ '')''
               \<in> set (fst (Schema_Update db escape sc))))"
    if read: "ReadFromDB db (Schema_Name sc) = Inr (Some cur)"
  proof -
    have run: "Schema_Update db escape sc = exec_all db [] (Diff escape sc cur)"
      by (rule Schema_Update_exec [OF read])
    have err: "\<forall>e. snd (Schema_Update db escape sc) = Some e \<longrightarrow>
         (\<exists>sent sql. fst (Schema_Update db escape sc) = sent @ [sql]
            \<and> DB_exec db sent sql = Some e)"
      unfolding run using exec_all_error [of db "[]" "Diff escape sc cur"] by blast
    have acc: "accepts_all db \<longrightarrow> snd (Schema_Update db escape sc) = None"
      unfolding run by (simp add: exec_all_accepts)
    have add: "''ALTER TABLE '' @ quoted (Schema_Name sc) @ '' ADD '' @ index_head index
                 @ joined (map quoted (Index_Columns index)) @ '')''
               \<in> set (fst (Schema_Update db escape sc))"
      if mem: "index \<in> set (Schema_Indices sc)" and cols: "Index_Columns index \<noteq> []"
        and nil: "snd (Schema_Update db escape sc) = None"
        and absent: "Schema_Index cur (Index_Name index) = None" for index
    proof -
      from mem absent have "Alter_statement escape sc cur
          (''ALTER TABLE '' @ quoted (Schema_Name sc) @ '' ADD '' @ index_clause index)"
        unfolding Alter_statement_def by blast
      then show ?thesis
        unfolding Schema_Update_nil [OF read nil] Diff_member_iff index_clause_joined [OF cols]
        by simp
    qed
    have rep: "''ALTER TABLE '' @ quoted (Schema_Name sc) @ '' DROP ''
                 @ (if Index_Primary index then ''PRIMARY KEY''
                    else ''INDEX '' @ quoted (Index_Name index))
                 @ '', ADD '' @ index_head index
                 @ joined (map quoted (Index_Columns index)) @ '')''
               \<in> set (fst (Schema_Update db escape sc))"
      if mem: "index \<in> set (Schema_Indices sc)" and cols: "Index_Columns index \<noteq> []"
        and nil: "snd (Schema_Update db escape sc) = None"
        and differs: "case Schema_Index cur (Index_Name index) of
                   None \<Rightarrow> False
                 | Some idx \<Rightarrow> \<not> Index_Equal idx index" for index
    proof -
      from mem differs have "Alter_statement escape sc cur
          (''ALTER TABLE '' @ quoted (Schema_Name sc) @ '' DROP ''
                 @ (if Index_Primary index then ''PRIMARY KEY''
                    else ''INDEX '' @ quoted (Index_Name index))
                 @ '', ADD '' @ index_clause index)"
        unfolding Alter_statement_def by blast
      then show ?thesis
        unfolding Schema_Update_nil [OF read nil] Diff_member_iff index_clause_joined [OF cols]
        by simp
    qed
    from err acc add rep show ?thesis by blast
  qed
  have create: "\<forall>index \<in> set (Schema_Indices sc). Index_Columns index \<noteq> [] \<longrightarrow>
         (\<exists>s. Create_sql escape sc = Inr s
            \<and> sublist (index_head index @ joined (map quoted (Index_Columns index)) @ '')'')
                 s)"
  proof (intro ballI impI)
    fix index assume mem: "index \<in> set (Schema_Indices sc)"
      and cols: "Index_Columns index \<noteq> []"
    from Create_sql_index_sublist [OF mem, of escape db log]
    show "\<exists>s. Create_sql escape sc = Inr s
            \<and> sublist (index_head index @ joined (map quoted (Index_Columns index)) @ '')'')
                 s"
      unfolding index_clause_joined [OF cols] by blast
  qed
  from update Create_sql_total [of escape sc db log] create show ?thesis by blast
qed

theorem Update_index_statement_lists_columns_witness:
  "snd (Schema_Update strict_users_db escape_sample users_empty_index) =
     Some (DriverError ''refused'')
   \<and> (\<exists>sent sql. fst (Schema_Update strict_users_db escape_sample users_empty_index) =
          sent @ [sql]
        \<and> DB_exec strict_users_db sent sql = Some (DriverError ''refused''))
   \<and> snd (Schema_Update users_db escape_sample users_empty_index) = None
   \<and> ''ALTER TABLE `users` ADD UNIQUE KEY `idx_name` (`name`)''
     \<in> set (fst (Schema_Update legacy_users_db escape_sample users_table))
   \<and> ''ALTER TABLE `pairs` DROP INDEX `idx_ab`, ADD KEY `idx_ab` (`a`,`b`)''
     \<in> set (fst (Schema_Update pairs_db escape_sample pairs_table))
   \<and> (\<exists>s. Create_sql escape_sample users_table = Inr s
        \<and> sublist ''UNIQUE KEY `idx_name` (`name`)'' s)"
proof -
  let ?i = "\<lparr>Index_Name = ''idx_name'', Index_Columns = [''name''], Index_Primary = False,
             Index_Unique = True\<rparr>"
  let ?j = "\<lparr>Index_Name = ''idx_ab'', Index_Columns = [''a'', ''b''],
             Index_Primary = False, Index_Unique = False\<rparr>"
  let ?j' = "\<lparr>Index_Name = ''idx_ab'', Index_Columns = [''b'', ''a''],
             Index_Primary = False, Index_Unique = False\<rparr>"
  let ?cur = "pairs_table\<lparr>Schema_Indices :=
       map (\<lambda>i. if i = ?j then i\<lparr>Index_Columns := [''b'', ''a'']\<rparr> else i)
         (Schema_Indices pairs_table)\<rparr>"
  txt \<open>A database that refuses the statement: the error returned is its answer.\<close>
  have "Schema_Update strict_users_db escape_sample users_empty_index =
      ([''ALTER TABLE `users` ADD KEY `idx_none` )''], Some (DriverError ''refused''))"
    unfolding Schema_Update_exec [OF ReadFromDB_strict_users_db] Diff_users_empty_index
    by (simp add: strict_users_db_def)
  then have e: "snd (Schema_Update strict_users_db escape_sample users_empty_index) =
      Some (DriverError ''refused'')" by simp
  note s = Update_index_statement_lists_columns
    [of strict_users_db users_empty_index users_table escape_sample "[]"]
  from s ReadFromDB_strict_users_db e
  have 1: "\<exists>sent sql. fst (Schema_Update strict_users_db escape_sample users_empty_index) =
          sent @ [sql]
        \<and> DB_exec strict_users_db sent sql = Some (DriverError ''refused'')"
    by blast
  txt \<open>A database that accepts every statement: nil is returned.\<close>
  note a = Update_index_statement_lists_columns
    [of users_db users_empty_index users_table escape_sample "[]"]
  from a ReadFromDB_users_db_empty_index users_db_accepts_all
  have 2: "snd (Schema_Update users_db escape_sample users_empty_index) = None"
    by blast
  txt \<open>An index that is added.\<close>
  have n: "Schema_Name users_table = ''users''" by (simp add: users_table_def)
  have r: "ReadFromDB legacy_users_db (Schema_Name users_table) = Inr (Some legacy_users)"
    unfolding n by (rule ReadFromDB_legacy_users_db)
  have m: "?i \<in> set (Schema_Indices users_table)" by (simp add: users_table_def)
  have c: "Index_Columns ?i \<noteq> []" by simp
  have ab: "Schema_Index legacy_users (Index_Name ?i) = None"
    by (simp add: Schema_Index_def legacy_users_def)
  note t = Update_index_statement_lists_columns
    [of legacy_users_db users_table legacy_users escape_sample "[]"]
  from t r legacy_users_db_accepts_all
  have nil: "snd (Schema_Update legacy_users_db escape_sample users_table) = None"
    by blast
  from t r m c nil ab have "''ALTER TABLE '' @ quoted (Schema_Name users_table) @ '' ADD ''
      @ index_head ?i @ joined (map quoted (Index_Columns ?i)) @ '')''
      \<in> set (fst (Schema_Update legacy_users_db escape_sample users_table))"
    by blast
  then have 3: "''ALTER TABLE `users` ADD UNIQUE KEY `idx_name` (`name`)''
     \<in> set (fst (Schema_Update legacy_users_db escape_sample users_table))"
    by (simp add: n quoted_def index_head_def)
  txt \<open>An index that is replaced.\<close>
  have n': "Schema_Name pairs_table = ''pairs''" by (simp add: pairs_table_def)
  have r': "ReadFromDB pairs_db (Schema_Name pairs_table) = Inr (Some ?cur)"
    unfolding n' by (rule ReadFromDB_pairs_db)
  have m': "?j \<in> set (Schema_Indices pairs_table)" by (simp add: pairs_table_def)
  have c': "Index_Columns ?j \<noteq> []" by simp
  have acc': "accepts_all pairs_db"
    unfolding pairs_db_def by (rule db_with_table_accepts_all)
  have l': "Schema_Index ?cur (Index_Name ?j) = Some ?j'"
    by (simp add: Schema_Index_def pairs_table_def)
  have "\<not> Index_Equal ?j' ?j" by (simp add: Index_Equal_def)
  with l' have d': "case Schema_Index ?cur (Index_Name ?j) of
                   None \<Rightarrow> False
                 | Some idx \<Rightarrow> \<not> Index_Equal idx ?j"
    by simp
  note t' = Update_index_statement_lists_columns
    [of pairs_db pairs_table ?cur escape_sample "[]"]
  from t' r' acc' have nil': "snd (Schema_Update pairs_db escape_sample pairs_table) = None"
    by blast
  from t' r' m' c' nil' d' have "''ALTER TABLE '' @ quoted (Schema_Name pairs_table) @ '' DROP ''
             @ (if Index_Primary ?j then ''PRIMARY KEY''
                else ''INDEX '' @ quoted (Index_Name ?j))
             @ '', ADD '' @ index_head ?j
             @ joined (map quoted (Index_Columns ?j)) @ '')''
           \<in> set (fst (Schema_Update pairs_db escape_sample pairs_table))"
    by blast
  then have 4: "''ALTER TABLE `pairs` DROP INDEX `idx_ab`, ADD KEY `idx_ab` (`a`,`b`)''
     \<in> set (fst (Schema_Update pairs_db escape_sample pairs_table))"
    by (simp add: n' quoted_def index_head_def)
  txt \<open>The clause of the same index in the statement of Create.\<close>
  note k = Update_index_statement_lists_columns
    [of db_without_tables users_table users_table escape_sample "[]"]
  from k m c have "\<exists>s. Create_sql escape_sample users_table = Inr s
        \<and> sublist (index_head ?i @ joined (map quoted (Index_Columns ?i)) @ '')'') s"
    by blast
  then have 5: "\<exists>s. Create_sql escape_sample users_table = Inr s
        \<and> sublist ''UNIQUE KEY `idx_name` (`name`)'' s"
    by (simp add: quoted_def index_head_def)
  from e 1 2 3 4 5 show ?thesis by blast
qed

text \<open>
  Claim C7, as stated, fails: for an index with no column nothing is rejected. \<open>Update\<close>
  sends a statement that ends with a lone closing parenthesis and returns nil, and
  \<open>Create\<close> sends a statement with the same clause.
\<close>

theorem Update_empty_index_counterexample:
  "Index_Columns (last (Schema_Indices users_empty_index)) = []
   \<and> Schema_Update users_db escape_sample users_empty_index =
       ([''ALTER TABLE `users` ADD KEY `idx_none` )''], None)
   \<and> Schema_Create db_without_tables escape_sample users_empty_index [] =
       ([users_empty_index_statement], None)"
proof -
  have e: "Index_Columns (last (Schema_Indices users_empty_index)) = []"
    by (simp add: users_empty_index_def)
  have u: "Schema_Update users_db escape_sample users_empty_index =
       ([''ALTER TABLE `users` ADD KEY `idx_none` )''], None)"
    unfolding Schema_Update_exec [OF ReadFromDB_users_db_empty_index]
      exec_all_accepts [OF users_db_accepts_all] Diff_users_empty_index
    by simp
  have "Create_sql escape_sample users_empty_index = Inr users_empty_index_statement"
    by (simp add: Create_sql_closed users_empty_index_def users_table_def column_clause_def
          column_tail_def index_clause_def index_head_def quoted_def table_attrs_def
          escape_sample_def apostrophe_def users_empty_index_statement_def)
  then have c: "Schema_Create db_without_tables escape_sample users_empty_index [] =
       ([users_empty_index_statement], None)"
    by (simp add: Schema_Create_def ExecContext_def db_without_tables_def)
  from e u c show ?thesis by blast
qed

section \<open>Every statement, name by name\<close>

lemma legacy_users_run:
  "Schema_Update legacy_users_db escape_sample users_table = (users_migration, None)"
proof -
  have n: "Schema_Name users_table = ''users''" by (simp add: users_table_def)
  have r: "ReadFromDB legacy_users_db (Schema_Name users_table) = Inr (Some legacy_users)"
    unfolding n by (rule ReadFromDB_legacy_users_db)
  show ?thesis
    unfolding Schema_Update_exec [OF r] exec_all_accepts [OF legacy_users_db_accepts_all]
      Diff_def Diff_users_migration
    by simp
qed

text \<open>
  Claim C9, as the code has it. Every statement \<open>Update\<close> sends is one of the seven
  forms of \<open>Alter_statement\<close>, and a run that returns nil has sent every statement of
  these forms that is due; \<open>Create\<close> builds the one statement given here. In all of
  them every name of a table, a column or an index stands between back quotes, and every
  comment, of a column or of the table, is passed through \<open>escape\<close> and stands between
  single quotes. A default value is not escaped: when it is not empty it follows
  \<open>DEFAULT\<close> as it is.
\<close>

theorem Statements_escape_comments_only:
  "(ReadFromDB db (Schema_Name sc) = Inr (Some cur) \<longrightarrow>
      (\<forall>s \<in> set (fst (Schema_Update db escape sc)). Alter_statement escape sc cur s)
      \<and> (snd (Schema_Update db escape sc) = None \<longrightarrow>
           (\<forall>s. Alter_statement escape sc cur s \<longrightarrow>
                s \<in> set (fst (Schema_Update db escape sc)))))
   \<and> Create_sql escape sc =
       Inr (''CREATE TABLE IF NOT EXISTS '' @ quoted (Schema_Name sc) @ '' ''
            @ butlast (''(''
                 @ concat (map (\<lambda>field. column_clause escape field @ '','')
                             (Schema_Fields sc))
                 @ concat (map (\<lambda>index. index_clause index @ '','') (Schema_Indices sc)))
            @ '')'' @ table_attrs escape sc)
   \<and> quoted name = ''`'' @ name @ ''`''
   \<and> column_clause escape field =
        quoted (Field_Name field) @ '' '' @ Field_Type field
        @ (if Field_Nullable field then '' NULL'' else '' NOT NULL'')
        @ (if Field_AutoIncrement field then '' AUTO_INCREMENT'' else '''')
        @ (if Field_DefaultValue field \<noteq> '''' then '' DEFAULT '' @ Field_DefaultValue field
           else '''')
        @ (if Field_Comment field \<noteq> ''''
           then '' COMMENT '' @ apostrophe @ escape (Field_Comment field) @ apostrophe
           else '''')
   \<and> index_clause index =
        butlast ((if Index_Primary index then ''PRIMARY KEY (''
                  else if Index_Unique index
                    then ''UNIQUE KEY '' @ quoted (Index_Name index) @ '' (''
                  else ''KEY '' @ quoted (Index_Name index) @ '' ('')
                 @ concat (map (\<lambda>column. quoted column @ '','') (Index_Columns index)))
        @ '')''
   \<and> table_attrs escape sc =
        (if Schema_Engine sc \<noteq> '''' then '' ENGINE='' @ Schema_Engine sc else '''')
        @ (if Schema_Collate sc \<noteq> '''' then '' COLLATE='' @ Schema_Collate sc else '''')
        @ (if Schema_Comment sc \<noteq> ''''
           then '' COMMENT='' @ apostrophe @ escape (Schema_Comment sc) @ apostrophe
           else '''')"
proof -
  have update: "(\<forall>s \<in> set (fst (Schema_Update db escape sc)). Alter_statement escape sc cur s)
      \<and> (snd (Schema_Update db escape sc) = None \<longrightarrow>
           (\<forall>s. Alter_statement escape sc cur s \<longrightarrow>
                s \<in> set (fst (Schema_Update db escape sc))))"
    if read: "ReadFromDB db (Schema_Name sc) = Inr (Some cur)"
  proof -
    have sound: "\<forall>s \<in> set (fst (Schema_Update db escape sc)). Alter_statement escape sc cur s"
      using Schema_Update_sent [OF read, of escape] Diff_member_iff [of _ escape sc cur]
      by blast
    have complete: "\<forall>s. Alter_statement escape sc cur s \<longrightarrow>
                s \<in> set (fst (Schema_Update db escape sc))"
      if nil: "snd (Schema_Update db escape sc) = None"
      unfolding Schema_Update_nil [OF read nil] Diff_member_iff by blast
    from sound complete show ?thesis by blast
  qed
  have create: "Create_sql escape sc =
       Inr (''CREATE TABLE IF NOT EXISTS '' @ quoted (Schema_Name sc) @ '' ''
            @ butlast (''(''
                 @ concat (map (\<lambda>field. column_clause escape field @ '','')
                             (Schema_Fields sc))
                 @ concat (map (\<lambda>index. index_clause index @ '','') (Schema_Indices sc)))
            @ '')'' @ table_attrs escape sc)"
    unfolding Create_sql_closed by (simp add: quoted_def)
  have q: "quoted name = ''`'' @ name @ ''`''" by (simp add: quoted_def)
  have c: "column_clause escape field =
        quoted (Field_Name field) @ '' '' @ Field_Type field
        @ (if Field_Nullable field then '' NULL'' else '' NOT NULL'')
        @ (if Field_AutoIncrement field then '' AUTO_INCREMENT'' else '''')
        @ (if Field_DefaultValue field \<noteq> '''' then '' DEFAULT '' @ Field_DefaultValue field
           else '''')
        @ (if Field_Comment field \<noteq> ''''
           then '' COMMENT '' @ apostrophe @ escape (Field_Comment field) @ apostrophe
           else '''')"
    by (simp add: column_clause_def column_tail_def)
  have i: "index_clause index =
        butlast ((if Index_Primary index then ''PRIMARY KEY (''
                  else if Index_Unique index
                    then ''UNIQUE KEY '' @ quoted (Index_Name index) @ '' (''
                  else ''KEY '' @ quoted (Index_Name index) @ '' ('')
                 @ concat (map (\<lambda>column. quoted column @ '','') (Index_Columns index)))
        @ '')''"
    by (simp add: index_clause_def index_head_def)
  have t: "table_attrs escape sc =
        (if Schema_Engine sc \<noteq> '''' then '' ENGINE='' @ Schema_Engine sc else '''')
        @ (if Schema_Collate sc \<noteq> '''' then '' COLLATE='' @ Schema_Collate sc else '''')
        @ (if Schema_Comment sc \<noteq> ''''
           then '' COMMENT='' @ apostrophe @ escape (Schema_Comment sc) @ apostrophe
           else '''')"
    by (simp add: table_attrs_def)
  from update create q c i t show ?thesis by blast
qed

theorem Statements_escape_comments_only_witness:
  "Alter_statement escape_sample users_table legacy_users
     ''ALTER TABLE `users` DROP INDEX `old_idx`''
   \<and> ''ALTER TABLE `users` ADD `name` varchar(64) NULL COMMENT '' @ apostrophe
        @ ''the user'' @ [CHR 0x5C, CHR 0x27] @ ''s name'' @ apostrophe
     \<in> set (fst (Schema_Update legacy_users_db escape_sample users_table))
   \<and> Create_sql escape_sample users_table = Inr users_create_statement"
proof -
  let ?name = "\<lparr>Field_Name = ''name'', Field_Type = ''varchar(64)'', Field_Nullable = True,
          Field_AutoIncrement = False, Field_DefaultValue = '''',
          Field_Comment = ''the user's name''\<rparr>"
  have n: "Schema_Name users_table = ''users''" by (simp add: users_table_def)
  have r: "ReadFromDB legacy_users_db (Schema_Name users_table) = Inr (Some legacy_users)"
    unfolding n by (rule ReadFromDB_legacy_users_db)
  note t = Statements_escape_comments_only
    [of legacy_users_db users_table legacy_users escape_sample "''name''" ?name
        "\<lparr>Index_Name = ''idx_name'', Index_Columns = [''name''], Index_Primary = False,
          Index_Unique = True\<rparr>"]
  have sent: "''ALTER TABLE `users` DROP INDEX `old_idx`''
      \<in> set (fst (Schema_Update legacy_users_db escape_sample users_table))"
    unfolding legacy_users_run by (simp add: users_migration_def)
  from t r sent have 1: "Alter_statement escape_sample users_table legacy_users
     ''ALTER TABLE `users` DROP INDEX `old_idx`''"
    by blast
  have nil: "snd (Schema_Update legacy_users_db escape_sample users_table) = None"
    unfolding legacy_users_run by simp
  have m: "?name \<in> set (Schema_Fields users_table)" by (simp add: users_table_def)
  have a: "Schema_Field legacy_users (Field_Name ?name) = None"
    by (simp add: Schema_Field_def legacy_users_def)
  from m a have "Alter_statement escape_sample users_table legacy_users
      (''ALTER TABLE '' @ quoted (Schema_Name users_table) @ '' ADD ''
         @ column_clause escape_sample ?name)"
    unfolding Alter_statement_def by blast
  with t r nil have "''ALTER TABLE '' @ quoted (Schema_Name users_table) @ '' ADD ''
         @ column_clause escape_sample ?name
     \<in> set (fst (Schema_Update legacy_users_db escape_sample users_table))"
    by blast
  then have 2: "''ALTER TABLE `users` ADD `name` varchar(64) NULL COMMENT '' @ apostrophe
        @ ''the user'' @ [CHR 0x5C, CHR 0x27] @ ''s name'' @ apostrophe
     \<in> set (fst (Schema_Update legacy_users_db escape_sample users_table))"
    by (simp add: n column_clause_def column_tail_def quoted_def escape_sample_def
          apostrophe_def)
  from t have "Create_sql escape_sample users_table =
       Inr (''CREATE TABLE IF NOT EXISTS '' @ quoted (Schema_Name users_table) @ '' ''
            @ butlast (''(''
                 @ concat (map (\<lambda>field. column_clause escape_sample field @ '','')
                             (Schema_Fields users_table))
                 @ concat (map (\<lambda>index. index_clause index @ '','')
                             (Schema_Indices users_table)))
            @ '')'' @ table_attrs escape_sample users_table)"
    by blast
  then have 3: "Create_sql escape_sample users_table = Inr users_create_statement"
    by (simp add: users_table_def column_clause_def column_tail_def index_clause_def
          index_head_def quoted_def table_attrs_def escape_sample_def apostrophe_def
          users_create_statement_def)
  from 1 2 3 show ?thesis by blast
qed

text \<open>
  Claim C9, as stated, fails: a default value with a single quote, which \<open>escape_sample\<close>
  would change, reaches the statement of \<open>Create\<close> and the add statement of
  \<open>Update\<close> unchanged.
\<close>

theorem Default_value_escaped_counterexample:
  "Field_DefaultValue nick = ''it's''
   \<and> escape_sample ''it's'' = ''it'' @ [CHR 0x5C, CHR 0x27] @ ''s''
   \<and> Schema_Create db_without_tables escape_sample nicks_table [] =
       ([''CREATE TABLE IF NOT EXISTS `nicks` (`nick` varchar(16) NOT NULL DEFAULT it's)''],
        None)
   \<and> Schema_Update users_db escape_sample users_with_nick =
       ([''ALTER TABLE `users` ADD `nick` varchar(16) NOT NULL DEFAULT it's''], None)"
proof -
  have d: "Field_DefaultValue nick = ''it's''" by (simp add: nick_def)
  have e: "escape_sample ''it's'' = ''it'' @ [CHR 0x5C, CHR 0x27] @ ''s''"
    by (simp add: escape_sample_def)
  have "Create_sql escape_sample nicks_table =
      Inr ''CREATE TABLE IF NOT EXISTS `nicks` (`nick` varchar(16) NOT NULL DEFAULT it's)''"
    by (simp add: Create_sql_closed nicks_table_def nick_def column_clause_def
          column_tail_def quoted_def table_attrs_def)
  then have c: "Schema_Create db_without_tables escape_sample nicks_table [] =
       ([''CREATE TABLE IF NOT EXISTS `nicks` (`nick` varchar(16) NOT NULL DEFAULT it's)''],
        None)"
    by (simp add: Schema_Create_def ExecContext_def db_without_tables_def)
  have u: "Schema_Update users_db escape_sample users_with_nick =
       ([''ALTER TABLE `users` ADD `nick` varchar(16) NOT NULL DEFAULT it's''], None)"
    unfolding Schema_Update_exec [OF ReadFromDB_users_db_with_nick]
      exec_all_accepts [OF users_db_accepts_all] Diff_users_with_nick
    by simp
  from d e c u show ?thesis by blast
qed

end
